theory Spec2Isabelle
  imports Main "HOL-Library.State_Monad" "HOL-Library.Word"
begin

text \<open>
  The Windows platform layer of azure-container-networking (package \<^verbatim>\<open>platform\<close>): the
  command executors, the one-shot setter of the \<^verbatim>\<open>SDNRemoteArpMacAddress\<close> registry value,
  and the reconciler that keeps the \<^verbatim>\<open>PriorityVLANTag\<close> value of a Mellanox adapter at 3.
  The reconciler is modelled in its two revisions: the refactored one, with the monitor
  loop, the dispatch \<^verbatim>\<open>SetMellanoxPriorityVLANTag\<close> and one convergence action for each
  adapter generation, and the earlier \<^verbatim>\<open>SetMellanoxRegKeyPriorityVLANTag\<close> of
  \<^verbatim>\<open>platform/os_windows.go\<close>. Functions run in a state monad over the state of the host;
  a Go function that returns a value and an error returns a pair here.
\<close>

section \<open>Go values used by the platform layer\<close>

text \<open>
  A Go \<^verbatim>\<open>string\<close> is a sequence of bytes, here a \<^typ>\<open>string\<close> (a list of 8-bit
  characters). A Go \<^verbatim>\<open>error\<close> is an \<open>error option\<close>: \<open>None\<close> is \<^verbatim>\<open>nil\<close>.
  The constructors are the three ways the platform layer builds an error:
  \<^item> \<open>errorString m\<close>: \<^verbatim>\<open>fmt.Errorf\<close> with no error operand (the message is \<open>m\<close>);
  \<^item> \<open>NumError f n e\<close>: \<^verbatim>\<open>&strconv.NumError{Func: f, Num: n, Err: e}\<close>;
  \<^item> \<open>wrapError p e\<close>: \<^verbatim>\<open>fmt.Errorf(p + "%w", e)\<close> or \<^verbatim>\<open>fmt.Errorf(p + "%v", e)\<close>; the
    message is \<open>p\<close> followed by the message of \<open>e\<close>.
\<close>

datatype error =
    errorString string
  | NumError string string error
  | wrapError string error

definition ErrSyntax :: error where
  "ErrSyntax = errorString ''invalid syntax''"

definition ErrRange :: error where
  "ErrRange = errorString ''value out of range''"

subsection \<open>strings.TrimSpace\<close>

text \<open>
  \<^verbatim>\<open>strings.TrimSpace\<close> removes the leading and then the trailing white space runes of
  a string. White space is what \<^verbatim>\<open>unicode.IsSpace\<close> accepts: six ASCII bytes, and the
  runes U+0085, U+00A0, U+1680, U+2000 to U+200A, U+2028, U+2029, U+202F, U+205F and
  U+3000, met in the string as their UTF-8 encodings. An invalid encoding decodes to
  U+FFFD, which is not white space.
\<close>

definition asciiSpace :: "char \<Rightarrow> bool" where
  "asciiSpace c \<longleftrightarrow> c \<in> {CHR 0x09, CHR 0x0A, CHR 0x0B, CHR 0x0C, CHR 0x0D, CHR 0x20}"

definition spaceRunes :: "string list" where
  "spaceRunes =
     [[CHR 0xC2, CHR 0x85], [CHR 0xC2, CHR 0xA0], [CHR 0xE1, CHR 0x9A, CHR 0x80],
      [CHR 0xE2, CHR 0x80, CHR 0x80], [CHR 0xE2, CHR 0x80, CHR 0x81],
      [CHR 0xE2, CHR 0x80, CHR 0x82], [CHR 0xE2, CHR 0x80, CHR 0x83],
      [CHR 0xE2, CHR 0x80, CHR 0x84], [CHR 0xE2, CHR 0x80, CHR 0x85],
      [CHR 0xE2, CHR 0x80, CHR 0x86], [CHR 0xE2, CHR 0x80, CHR 0x87],
      [CHR 0xE2, CHR 0x80, CHR 0x88], [CHR 0xE2, CHR 0x80, CHR 0x89],
      [CHR 0xE2, CHR 0x80, CHR 0x8A], [CHR 0xE2, CHR 0x80, CHR 0xA8],
      [CHR 0xE2, CHR 0x80, CHR 0xA9], [CHR 0xE2, CHR 0x80, CHR 0xAF],
      [CHR 0xE2, CHR 0x81, CHR 0x9F], [CHR 0xE3, CHR 0x80, CHR 0x80]]"

text \<open>The number of bytes of the white space rune a string starts with, 0 when it
  starts with none.\<close>

definition leadingSpace :: "string \<Rightarrow> nat" where
  "leadingSpace s =
     (case s of
        [] \<Rightarrow> 0
      | c # _ \<Rightarrow>
          if asciiSpace c then 1
          else (case find (\<lambda>r. take (length r) s = r) spaceRunes of
                  Some r \<Rightarrow> length r
                | None \<Rightarrow> 0))"

text \<open>The number of bytes of the white space rune a string ends with, 0 when it ends
  with none.\<close>

definition trailingSpace :: "string \<Rightarrow> nat" where
  "trailingSpace s =
     (if s = [] then 0
      else if asciiSpace (last s) then 1
      else (case find (\<lambda>r. length r \<le> length s \<and> drop (length s - length r) s = r) spaceRunes of
              Some r \<Rightarrow> length r
            | None \<Rightarrow> 0))"

function trimLeft :: "string \<Rightarrow> string" where
  "trimLeft s = (if leadingSpace s = 0 then s else trimLeft (drop (leadingSpace s) s))"
  by pat_completeness auto
termination
proof (relation "measure length")
  show "wf (measure length)" by simp
next
  fix s :: string
  assume "leadingSpace s \<noteq> 0"
  moreover from this have "s \<noteq> []" by (cases s) (simp_all add: leadingSpace_def)
  ultimately show "(drop (leadingSpace s) s, s) \<in> measure length" by simp
qed

function trimRight :: "string \<Rightarrow> string" where
  "trimRight s = (if trailingSpace s = 0 then s else trimRight (take (length s - trailingSpace s) s))"
  by pat_completeness auto
termination
proof (relation "measure length")
  show "wf (measure length)" by simp
next
  fix s :: string
  assume "trailingSpace s \<noteq> 0"
  moreover from this have "s \<noteq> []" by (cases s) (simp_all add: trailingSpace_def)
  ultimately show "(take (length s - trailingSpace s) s, s) \<in> measure length" by simp
qed

definition TrimSpace :: "string \<Rightarrow> string" where
  "TrimSpace s = trimRight (trimLeft s)"

subsection \<open>strconv.Atoi and the %d verb\<close>

text \<open>
  \<^verbatim>\<open>strconv.Atoi\<close> on a 64-bit \<^verbatim>\<open>int\<close>: an optional sign, then at least one decimal
  digit and nothing else; a value outside the 64-bit range is a range error. A failed
  parse returns a \<^verbatim>\<open>*NumError\<close>.
\<close>

definition isDigit :: "char \<Rightarrow> bool" where
  "isDigit c \<longleftrightarrow> (48 :: nat) \<le> of_char c \<and> of_char c \<le> (57 :: nat)"

fun decimal :: "int \<Rightarrow> string \<Rightarrow> int" where
  "decimal n [] = n"
| "decimal n (c # cs) = decimal (n * 10 + (int (of_char c) - 48)) cs"

definition Atoi :: "string \<Rightarrow> int \<times> error option" where
  "Atoi s =
     (let neg = (s \<noteq> [] \<and> hd s = CHR ''-'');
          ds = (if s \<noteq> [] \<and> (hd s = CHR ''-'' \<or> hd s = CHR ''+'') then tl s else s)
      in if ds = [] \<or> \<not> list_all isDigit ds then (0, Some (NumError ''Atoi'' s ErrSyntax))
         else let n = (if neg then - decimal 0 ds else decimal 0 ds)
              in if n < - (2 ^ 63) then (- (2 ^ 63), Some (NumError ''Atoi'' s ErrRange))
                 else if 2 ^ 63 - 1 < n then (2 ^ 63 - 1, Some (NumError ''Atoi'' s ErrRange))
                 else (n, None))"

text \<open>The \<^verbatim>\<open>%d\<close> verb of \<^verbatim>\<open>fmt\<close> on an integer: its decimal digits, with a minus
  sign when negative.\<close>

function digits :: "nat \<Rightarrow> string" where
  "digits n = (if n < 10 then [char_of (48 + n)] else digits (n div 10) @ [char_of (48 + n mod 10)])"
  by pat_completeness auto
termination
  by (relation "measure id") auto

definition fmt_d :: "int \<Rightarrow> string" where
  "fmt_d i = (if i < 0 then CHR ''-'' # digits (nat (- i)) else digits (nat i))"

section \<open>The host: processes, the log and the process-wide flag\<close>

text \<open>
  What \<^verbatim>\<open>exec.Cmd.Run\<close> leaves behind: the error of \<^verbatim>\<open>Run\<close> (its message, \<open>None\<close> for
  \<^verbatim>\<open>nil\<close>) and the two buffers the caller attached.
\<close>

record run_result =
  run_err :: "string option"
  stdout_buf :: string
  stderr_buf :: string

text \<open>
  The operating system is a parameter: \<open>LookPath\<close> is \<^verbatim>\<open>exec.LookPath\<close> and \<open>Run\<close>
  is \<^verbatim>\<open>exec.Command(name, args...).Run()\<close>, which answers from the state \<open>'w\<close> of the
  machine and changes it.
\<close>

record 'w exec_env =
  LookPath :: "string \<Rightarrow> 'w \<Rightarrow> string option"
  Run :: "string \<Rightarrow> string list \<Rightarrow> 'w \<Rightarrow> run_result \<times> 'w"

datatype arg = ArgString string | ArgError "error option" | ArgInt int

text \<open>A call of the logging sink: the format string and its operands, unrendered.\<close>

datatype log_entry = log_Printf string "arg list" | log_Errorf string "arg list"

text \<open>
  The state a call runs in: the machine, the processes started so far (program and
  argument vector, oldest first), the log, and the package variable
  \<^verbatim>\<open>sdnRemoteArpMacAddressSet\<close>.
\<close>

record 'w sys =
  world :: 'w
  procs :: "(string \<times> string list) list"
  logs :: "log_entry list"
  sdnRemoteArpMacAddressSet :: bool

text \<open>The argument vectors of the processes started so far.\<close>

definition issued :: "'w sys \<Rightarrow> string list list" where
  "issued s = map snd (procs s)"

definition logPrintf :: "string \<Rightarrow> arg list \<Rightarrow> ('w sys, unit) state" where
  "logPrintf f as = State (\<lambda>s. ((), s\<lparr>logs := logs s @ [log_Printf f as]\<rparr>))"

definition logErrorf :: "string \<Rightarrow> arg list \<Rightarrow> ('w sys, unit) state" where
  "logErrorf f as = State (\<lambda>s. ((), s\<lparr>logs := logs s @ [log_Errorf f as]\<rparr>))"

definition cmdRun :: "'w exec_env \<Rightarrow> string \<Rightarrow> string list \<Rightarrow> ('w sys, run_result) state" where
  "cmdRun env name args =
     State (\<lambda>s. case Run env name args (world s) of
                  (r, w') \<Rightarrow> (r, s\<lparr>world := w', procs := procs s @ [(name, args)]\<rparr>))"

section \<open>The command executors\<close>

definition ExecuteCommand :: "'w exec_env \<Rightarrow> string \<Rightarrow> ('w sys, string \<times> error option) state" where
  "ExecuteCommand env command = do {
     logPrintf ''[Azure-Utils] %s'' [ArgString command];
     r \<leftarrow> cmdRun env ''cmd'' [''/c'', command];
     (case run_err r of
        Some e \<Rightarrow> State_Monad.return ('''', Some (errorString (e @ '':'' @ stderr_buf r)))
      | None \<Rightarrow> State_Monad.return (stdout_buf r, None))
   }"

definition ExecutePowershellCommand :: "'w exec_env \<Rightarrow> string \<Rightarrow> ('w sys, string \<times> error option) state" where
  "ExecutePowershellCommand env command = do {
     s \<leftarrow> State_Monad.get;
     (case LookPath env ''powershell.exe'' (world s) of
        None \<Rightarrow> State_Monad.return ('''', Some (errorString ''Failed to find powershell executable''))
      | Some ps \<Rightarrow> do {
          logPrintf ''[Azure-Utils] %s'' [ArgString command];
          r \<leftarrow> cmdRun env ps [command];
          (case run_err r of
             Some e \<Rightarrow> State_Monad.return ('''', Some (errorString (e @ '':'' @ stderr_buf r)))
           | None \<Rightarrow> State_Monad.return (TrimSpace (stdout_buf r), None))
        })
   }"

section \<open>Constants of the package\<close>

definition SDNRemoteArpMacAddress :: string where
  "SDNRemoteArpMacAddress = ''12-34-56-78-9a-bc''"

definition hnsStatePath :: string where
  "hnsStatePath = ''HKLM:'' @ [CHR 0x5C] @ ''SYSTEM'' @ [CHR 0x5C] @ ''CurrentControlSet'' @ [CHR 0x5C]
     @ ''Services'' @ [CHR 0x5C] @ ''hns'' @ [CHR 0x5C] @ ''State''"

definition GetSdnRemoteArpMacAddressCommand :: string where
  "GetSdnRemoteArpMacAddressCommand =
     ''(Get-ItemProperty -Path '' @ hnsStatePath @ '' -Name SDNRemoteArpMacAddress).SDNRemoteArpMacAddress''"

definition SetSdnRemoteArpMacAddressCommand :: string where
  \<open>SetSdnRemoteArpMacAddressCommand =
     ''Set-ItemProperty -Path '' @ hnsStatePath @ '' -Name SDNRemoteArpMacAddress -Value "12-34-56-78-9a-bc"''\<close>

definition RestartHnsServiceCommand :: string where
  "RestartHnsServiceCommand = ''Restart-Service -Name hns''"

definition mellanoxSearchString :: string where
  "mellanoxSearchString = ''*Mellanox*''"

definition priorityVLANTagIdentifier :: string where
  "priorityVLANTagIdentifier = ''*PriorityVLANTag''"

definition registryKeyPrefix :: string where
  "registryKeyPrefix = ''HKLM:'' @ [CHR 0x5C] @ ''System'' @ [CHR 0x5C] @ ''CurrentControlSet'' @ [CHR 0x5C]
     @ ''Control'' @ [CHR 0x5C] @ ''Class'' @ [CHR 0x5C]"

definition desiredRegValueForVLANTag :: int where
  "desiredRegValueForVLANTag = 3"

text \<open>A \<^verbatim>\<open>time.Duration\<close> is a signed 64-bit count of nanoseconds, and so is an
  \<^verbatim>\<open>int\<close> on the 64-bit Windows targets of the package; their arithmetic wraps.\<close>

definition Second :: "64 word" where
  "Second = 1000000000"

definition defaultMellanoxMonitorInterval :: "64 word" where
  "defaultMellanoxMonitorInterval = 30 * Second"

section \<open>The command templates\<close>

text \<open>Each command is the \<^verbatim>\<open>fmt.Sprintf\<close> of the source with its operands substituted.\<close>

definition adapterNameQuery :: string where
  \<open>adapterNameQuery =
     ''Get-NetAdapter | Where-Object { $_.InterfaceDescription -like "'' @ mellanoxSearchString
       @ ''" } | Select-Object -ExpandProperty Name''\<close>

definition vlanTagProbe :: "string \<Rightarrow> string" where
  \<open>vlanTagProbe adapterName =
     ''Get-NetAdapterAdvancedProperty | Where-Object { $_.RegistryKeyword -like "''
       @ priorityVLANTagIdentifier @ ''" -and $_.Name -eq "'' @ adapterName
       @ ''" } | Select-Object -ExpandProperty Name''\<close>

definition advancedPropertyQuery :: "string \<Rightarrow> string" where
  \<open>advancedPropertyQuery adapterName =
     ''Get-NetAdapterAdvancedProperty | Where-Object { $_.RegistryKeyword -like "''
       @ priorityVLANTagIdentifier @ ''" -and $_.Name -eq "'' @ adapterName
       @ ''" } | Select-Object -ExpandProperty RegistryValue''\<close>

definition advancedPropertyWrite :: "string \<Rightarrow> int \<Rightarrow> string" where
  \<open>advancedPropertyWrite adapterName v =
     ''Set-NetAdapterAdvancedProperty -Name "'' @ adapterName @ ''" -RegistryKeyword "''
       @ priorityVLANTagIdentifier @ ''" -RegistryValue '' @ fmt_d v\<close>

definition deviceIDQuery :: string where
  \<open>deviceIDQuery =
     ''Get-CimInstance -Namespace root/cimv2 -ClassName Win32_PNPEntity | Where-Object PNPClass -EQ "Net" | Where-Object { $_.Name -like "''
       @ mellanoxSearchString @ ''" } | Select-Object -ExpandProperty DeviceID''\<close>

definition driverKeyQuery :: "string \<Rightarrow> string" where
  \<open>driverKeyQuery deviceid =
     ''Get-PnpDeviceProperty -InstanceId "'' @ deviceid
       @ ''" | Where-Object KeyName -EQ "DEVPKEY_Device_Driver" | Select-Object -ExpandProperty Data''\<close>

definition itemPropertyQuery :: "string \<Rightarrow> string" where
  \<open>itemPropertyQuery registryKeyFullPath =
     ''Get-ItemProperty -Path "'' @ registryKeyFullPath @ ''" -Name "'' @ priorityVLANTagIdentifier
       @ ''" | Select-Object -ExpandProperty "'' @ priorityVLANTagIdentifier @ ''"''\<close>

definition itemPropertyWrite :: "string \<Rightarrow> int \<Rightarrow> string" where
  \<open>itemPropertyWrite registryKeyFullPath v =
     ''New-ItemProperty -Path "'' @ registryKeyFullPath @ ''" -Name "'' @ priorityVLANTagIdentifier
       @ ''" -Value '' @ fmt_d v @ '' -PropertyType String -Force''\<close>

definition restartNetAdapter :: "string \<Rightarrow> string" where
  \<open>restartNetAdapter adapterName = ''Restart-NetAdapter -Name "'' @ adapterName @ ''"''\<close>

section \<open>The one-shot ARP setter\<close>

text \<open>\<^verbatim>\<open>SetSdnRemoteArpMacAddress\<close>; the two revisions of the function differ only in
  the spelling of the flag test (\<^verbatim>\<open>== false\<close> against \<^verbatim>\<open>!\<close>).\<close>

definition SetSdnRemoteArpMacAddress :: "'w exec_env \<Rightarrow> ('w sys, error option) state" where
  "SetSdnRemoteArpMacAddress env = do {
     s \<leftarrow> State_Monad.get;
     if \<not> sdnRemoteArpMacAddressSet s then do {
       (result, err) \<leftarrow> ExecutePowershellCommand env GetSdnRemoteArpMacAddressCommand;
       if err \<noteq> None then State_Monad.return err
       else if result \<noteq> SDNRemoteArpMacAddress then do {
         (_, err) \<leftarrow> ExecutePowershellCommand env SetSdnRemoteArpMacAddressCommand;
         if err \<noteq> None then do {
           logPrintf ''Failed to set SDNRemoteArpMacAddress due to error %s'' [ArgError err];
           State_Monad.return err
         } else do {
           logPrintf ''[Azure CNS] SDNRemoteArpMacAddress regKey set successfully. Restarting hns service.'' [];
           (_, err) \<leftarrow> ExecutePowershellCommand env RestartHnsServiceCommand;
           if err \<noteq> None then do {
             logPrintf ''Failed to Restart HNS Service due to error %s'' [ArgError err];
             State_Monad.return err
           } else do {
             State_Monad.update (\<lambda>s. s\<lparr>sdnRemoteArpMacAddressSet := True\<rparr>);
             State_Monad.return None
           }
         }
       } else do {
         State_Monad.update (\<lambda>s. s\<lparr>sdnRemoteArpMacAddressSet := True\<rparr>);
         State_Monad.return None
       }
     } else State_Monad.return None
   }"

section \<open>The state queries\<close>

definition getMellanoxAdapterName :: "'w exec_env \<Rightarrow> ('w sys, string \<times> error option) state" where
  "getMellanoxAdapterName env = do {
     (adapterName, err) \<leftarrow> ExecutePowershellCommand env adapterNameQuery;
     (case err of
        Some e \<Rightarrow> State_Monad.return ('''',
          Some (wrapError ''error while executing powershell command to get net adapter list: '' e))
      | None \<Rightarrow>
          if adapterName = '''' then State_Monad.return ('''',
            Some (errorString (''no network adapter found with '' @ mellanoxSearchString @ '' in description'')))
          else State_Monad.return (adapterName, None))
   }"

definition getMellanoxPriorityVLANTagValueForV4 :: "'w exec_env \<Rightarrow> string \<Rightarrow> ('w sys, int \<times> error option) state" where
  "getMellanoxPriorityVLANTagValueForV4 env adapterName = do {
     (regvalue, err) \<leftarrow> ExecutePowershellCommand env (advancedPropertyQuery adapterName);
     (case err of
        Some e \<Rightarrow> State_Monad.return (0, Some e)
      | None \<Rightarrow>
          (case Atoi regvalue of
             (_, Some e) \<Rightarrow> State_Monad.return (0,
               Some (wrapError ''failed to convert PriorityVLANTag value to integer: '' e))
           | (intValue, None) \<Rightarrow> State_Monad.return (intValue, None)))
   }"

definition getMellanoxPriorityVLANTagValueForV3 :: "'w exec_env \<Rightarrow> string \<Rightarrow> string \<Rightarrow> ('w sys, int \<times> error option) state" where
  "getMellanoxPriorityVLANTagValueForV3 env registryKeyFullPath adapterName = do {
     (regvalue, err) \<leftarrow> ExecutePowershellCommand env (itemPropertyQuery registryKeyFullPath);
     (case err of
        Some e \<Rightarrow> State_Monad.return (0, Some e)
      | None \<Rightarrow>
          (case Atoi regvalue of
             (_, Some e) \<Rightarrow> State_Monad.return (0,
               Some (wrapError ''failed to convert PriorityVLANTag value to integer: '' e))
           | (intValue, None) \<Rightarrow> State_Monad.return (intValue, None)))
   }"

section \<open>The convergence actions\<close>

text \<open>The direct-property generation (version 4 and up): query, compare, write.\<close>

definition setMellanoxPriorityVLANTagValueForV4 :: "'w exec_env \<Rightarrow> string \<Rightarrow> ('w sys, error option) state" where
  "setMellanoxPriorityVLANTagValueForV4 env adapterName = do {
     (currentVLANTagValue, err) \<leftarrow> getMellanoxPriorityVLANTagValueForV4 env adapterName;
     (case err of
        Some e \<Rightarrow> State_Monad.return
          (Some (wrapError ''error while checking registry value for PriorityVLANTag for adapter: '' e))
      | None \<Rightarrow>
          if currentVLANTagValue = desiredRegValueForVLANTag then do {
            logPrintf ''Mellanox PriorityVLANTag is already set to %v, skipping reset''
              [ArgInt desiredRegValueForVLANTag];
            State_Monad.return None
          } else do {
            (_, err) \<leftarrow> ExecutePowershellCommand env
              (advancedPropertyWrite adapterName desiredRegValueForVLANTag);
            (case err of
               Some e \<Rightarrow> State_Monad.return
                 (Some (wrapError ''error while setting up registry value for PriorityVLANTag for adapter: '' e))
             | None \<Rightarrow> do {
                 logPrintf ''Successfully set Mellanox Network Adapter: %s with %s property value as %d''
                   [ArgString adapterName, ArgString priorityVLANTagIdentifier,
                    ArgInt desiredRegValueForVLANTag];
                 State_Monad.return None
               })
          })
   }"

text \<open>The legacy generation (version 3 or less): device ID, driver key suffix, registry
  path, query, compare, write, restart.\<close>

definition setMellanoxPriorityVLANTagValueForV3 :: "'w exec_env \<Rightarrow> string \<Rightarrow> ('w sys, error option) state" where
  "setMellanoxPriorityVLANTagValueForV3 env adapterName = do {
     logPrintf ''Searching through CIM instances for Network devices with %s in the name''
       [ArgString mellanoxSearchString];
     (deviceid, err) \<leftarrow> ExecutePowershellCommand env deviceIDQuery;
     (case err of
        Some e \<Rightarrow> State_Monad.return
          (Some (wrapError (''error while executing powershell command to get device id of ''
                   @ adapterName @ '': '') e))
      | None \<Rightarrow>
          if deviceid = '''' then State_Monad.return
            (Some (errorString (''no network device found with '' @ mellanoxSearchString @ '' in description'')))
          else do {
            logPrintf ''Device ID found and Getting PNP device properites for %s'' [ArgString deviceid];
            (registryKeySuffix, err) \<leftarrow> ExecutePowershellCommand env (driverKeyQuery deviceid);
            (case err of
               Some e \<Rightarrow> State_Monad.return
                 (Some (wrapError (''error while executing powershell command to get registry suffix of device id ''
                          @ deviceid @ '': '') e))
             | None \<Rightarrow> do {
                 (currentVLANTagValue, err) \<leftarrow>
                   getMellanoxPriorityVLANTagValueForV3 env (registryKeyPrefix @ registryKeySuffix) adapterName;
                 (case err of
                    Some e \<Rightarrow> State_Monad.return
                      (Some (wrapError ''error while checking registry value for PriorityVLANTag for adapter: '' e))
                  | None \<Rightarrow>
                      if currentVLANTagValue = desiredRegValueForVLANTag then do {
                        logPrintf ''Mellanox PriorityVLANTag is already set to %v, skipping reset''
                          [ArgInt desiredRegValueForVLANTag];
                        State_Monad.return None
                      } else do {
                        (_, err) \<leftarrow> ExecutePowershellCommand env
                          (itemPropertyWrite (registryKeyPrefix @ registryKeySuffix) desiredRegValueForVLANTag);
                        (case err of
                           Some e \<Rightarrow> State_Monad.return
                             (Some (wrapError (''error while executing powershell command to set Item property for device id  ''
                                      @ deviceid @ '': '') e))
                         | None \<Rightarrow> do {
                             logPrintf ''Restarting Mellanox network adapter for regkey change to take effect'' [];
                             (_, err) \<leftarrow> ExecutePowershellCommand env (restartNetAdapter adapterName);
                             (case err of
                                Some e \<Rightarrow> State_Monad.return
                                  (Some (wrapError (''error while executing powershell command to restart net adapter  ''
                                           @ adapterName @ '': '') e))
                              | None \<Rightarrow> do {
                                  logPrintf ''For Mellanox CX-3 adapters, the reg key set to %d''
                                    [ArgInt desiredRegValueForVLANTag];
                                  State_Monad.return None
                                })
                           })
                      })
               })
          })
   }"

section \<open>The dispatch on the adapter generation\<close>

definition SetMellanoxPriorityVLANTag :: "'w exec_env \<Rightarrow> string \<Rightarrow> ('w sys, error option) state" where
  "SetMellanoxPriorityVLANTag env adapterName = do {
     (adapterNameWithVLANTag, err) \<leftarrow> ExecutePowershellCommand env (vlanTagProbe adapterName);
     (case err of
        Some e \<Rightarrow> State_Monad.return
          (Some (wrapError (''error while executing powershell command to get VLAN Tag advance property of ''
                   @ adapterName @ '': '') e))
      | None \<Rightarrow>
          if adapterNameWithVLANTag \<noteq> '''' then setMellanoxPriorityVLANTagValueForV4 env adapterNameWithVLANTag
          else setMellanoxPriorityVLANTagValueForV3 env adapterName)
   }"

section \<open>The monitor loop\<close>

text \<open>
  The loop blocks in a \<^verbatim>\<open>select\<close> over \<^verbatim>\<open>ctx.Done()\<close> and \<^verbatim>\<open>ticker.C\<close>. The context
  and the ticker belong to the caller and to the clock, so a run of the loop is driven
  by a schedule: one \<open>round\<close> for each time the \<^verbatim>\<open>select\<close> is evaluated or woken.
  \<open>ctx_err\<close> is \<^verbatim>\<open>ctx.Err()\<close> at that moment (\<^verbatim>\<open>ctx.Done()\<close> is closed exactly when it
  is not \<^verbatim>\<open>nil\<close>), \<open>tick_ready\<close> says whether a tick waits in \<^verbatim>\<open>ticker.C\<close>, and
  \<open>pick_tick\<close> is the choice of the Go runtime when both cases can proceed (Go chooses
  one of them by a uniform pseudo-random selection). With neither ready the \<^verbatim>\<open>select\<close>
  stays blocked and the next round is looked at.
\<close>

record round =
  ctx_err :: "error option"
  tick_ready :: bool
  pick_tick :: bool

datatype select_case = case_Done | case_Tick

definition go_select :: "round \<Rightarrow> select_case option" where
  "go_select r =
     (if ctx_err r \<noteq> None \<and> tick_ready r then Some (if pick_tick r then case_Tick else case_Done)
      else if ctx_err r \<noteq> None then Some case_Done
      else if tick_ready r then Some case_Tick
      else None)"

text \<open>How a run of the loop over a finite schedule ends: it returned, it is still
  blocked in the \<^verbatim>\<open>select\<close> when the schedule ends, or it panicked.\<close>

datatype outcome = Returned | Blocked | Panicked string

text \<open>The body of the \<^verbatim>\<open>case <-ticker.C\<close> branch: one reconciliation cycle.\<close>

definition monitorCycle :: "'w exec_env \<Rightarrow> ('w sys, unit) state" where
  "monitorCycle env = do {
     (adapterName, err) \<leftarrow> getMellanoxAdapterName env;
     (if err \<noteq> None then
        logErrorf ''getMellanoxAdapterName returned err: %v and adapterName: %s''
          [ArgError err, ArgString adapterName]
      else State_Monad.return ());
     err \<leftarrow> SetMellanoxPriorityVLANTag env adapterName;
     (if err \<noteq> None then
        logErrorf ''error while monitoring and setting Mellanox Reg Key value: %v'' [ArgError err]
      else State_Monad.return ())
   }"

fun monitorLoop :: "'w exec_env \<Rightarrow> round list \<Rightarrow> ('w sys, outcome) state" where
  "monitorLoop env [] = State_Monad.return Blocked"
| "monitorLoop env (r # rs) =
     (case go_select r of
        None \<Rightarrow> monitorLoop env rs
      | Some case_Done \<Rightarrow> do {
          logPrintf ''context cancelled, stopping Mellanox Monitoring:'' [ArgError (ctx_err r)];
          State_Monad.return Returned
        }
      | Some case_Tick \<Rightarrow> do {
          monitorCycle env;
          monitorLoop env rs
        })"

text \<open>Lines 223 to 226: the interval of the ticker.\<close>

definition monitorInterval :: "64 word \<Rightarrow> 64 word" where
  "monitorInterval intervalSecs =
     (if 0 <s intervalSecs then intervalSecs * Second else defaultMellanoxMonitorInterval)"

text \<open>\<^verbatim>\<open>time.NewTicker\<close> panics on an interval that is not positive.\<close>

definition MonitorAndSetMellanoxRegKeyPriorityVLANTag ::
  "'w exec_env \<Rightarrow> round list \<Rightarrow> 64 word \<Rightarrow> ('w sys, outcome) state" where
  "MonitorAndSetMellanoxRegKeyPriorityVLANTag env ctx intervalSecs =
     (if monitorInterval intervalSecs \<le>s 0
      then State_Monad.return (Panicked ''non-positive interval for NewTicker'')
      else monitorLoop env ctx)"

section \<open>The earlier revision of the reconciler\<close>

text \<open>
  \<^verbatim>\<open>SetMellanoxRegKeyPriorityVLANTag\<close> of \<^verbatim>\<open>platform/os_windows.go\<close>: lookup, dispatch and
  both convergence actions in one function. It builds the same command strings; the one
  difference is the blank that starts the read-back query of its direct-property branch.
\<close>

definition regvalueForVLANTag :: int where
  "regvalueForVLANTag = 3"

definition SetMellanoxRegKeyPriorityVLANTag :: "'w exec_env \<Rightarrow> ('w sys, error option) state" where
  \<open>SetMellanoxRegKeyPriorityVLANTag env = do {
     (adapatername, err) \<leftarrow> ExecutePowershellCommand env adapterNameQuery;
     (case err of
        Some e \<Rightarrow> State_Monad.return
          (Some (wrapError ''error while executing powershell command to get net adapter list: '' e))
      | None \<Rightarrow>
          if adapatername = '''' then State_Monad.return
            (Some (errorString (''no network adapter found with "'' @ mellanoxSearchString @ ''" in description'')))
          else do {
            logPrintf ''Name of Mellanox adapter : %v'' [ArgString adapatername];
            (adapterNamewithVLANTag, err) \<leftarrow> ExecutePowershellCommand env (vlanTagProbe adapatername);
            (case err of
               Some e \<Rightarrow> State_Monad.return
                 (Some (wrapError (''error while executing powershell command to get VLAN Tag advance property of ''
                          @ adapatername @ '': '') e))
             | None \<Rightarrow>
                 if adapterNamewithVLANTag \<noteq> '''' then do {
                   (_, err) \<leftarrow> ExecutePowershellCommand env
                     (advancedPropertyWrite adapatername regvalueForVLANTag);
                   (case err of
                      Some e \<Rightarrow> State_Monad.return
                        (Some (wrapError ''error while setting up registery value for PriorityVLANTag for adapater: '' e))
                    | None \<Rightarrow> do {
                        (regvalue, err) \<leftarrow> ExecutePowershellCommand env
                          ('' '' @ advancedPropertyQuery adapatername);
                        (case err of
                           Some e \<Rightarrow> State_Monad.return
                             (Some (wrapError ''error while checking registery value for PriorityVLANTag for adapater: '' e))
                         | None \<Rightarrow>
                             if regvalue \<noteq> fmt_d regvalueForVLANTag then State_Monad.return
                               (Some (errorString (''failure while setting Mellanox Network Adapter: "'' @ adapatername
                                  @ ''" with "'' @ priorityVLANTagIdentifier @ ''" property value to ''
                                  @ fmt_d regvalueForVLANTag)))
                             else do {
                               logPrintf ''Successfully set Mellanox Network Adapter: "%s" with "%s" property value as %d''
                                 [ArgString adapatername, ArgString priorityVLANTagIdentifier,
                                  ArgInt regvalueForVLANTag];
                               State_Monad.return None
                             })
                      })
                 } else do {
                   logPrintf ''Searching through CIM instances for Network devices with "%s" in the name''
                     [ArgString mellanoxSearchString];
                   (deviceid, err) \<leftarrow> ExecutePowershellCommand env deviceIDQuery;
                   (case err of
                      Some e \<Rightarrow> State_Monad.return
                        (Some (wrapError (''error while executing powershell command to get device id of ''
                                 @ adapatername @ '': '') e))
                    | None \<Rightarrow>
                        if deviceid = '''' then do {
                          logPrintf ''No network device found with "%s" in description''
                            [ArgString mellanoxSearchString];
                          State_Monad.return None
                        } else do {
                          logPrintf ''Devcie ID found and Getting PNP device properites for %s''
                            [ArgString deviceid];
                          (registryKeySuffix, err) \<leftarrow> ExecutePowershellCommand env (driverKeyQuery deviceid);
                          (case err of
                             Some e \<Rightarrow> State_Monad.return
                               (Some (wrapError (''error while executing powershell command to get device id of ''
                                        @ adapatername @ '': '') e))
                           | None \<Rightarrow> do {
                               (_, err) \<leftarrow> ExecutePowershellCommand env
                                 (itemPropertyWrite (registryKeyPrefix @ registryKeySuffix) regvalueForVLANTag);
                               (case err of
                                  Some e \<Rightarrow> State_Monad.return
                                    (Some (wrapError (''error while executing powershell command to set Item property for device id  ''
                                             @ deviceid @ '': '') e))
                                | None \<Rightarrow> do {
                                    logPrintf ''Restarting Mellanox network adapter for regkey change to take effect'' [];
                                    (_, err) \<leftarrow> ExecutePowershellCommand env (restartNetAdapter adapatername);
                                    (case err of
                                       Some e \<Rightarrow> State_Monad.return
                                         (Some (wrapError (''error while executing powershell command to restart net adapter  ''
                                                  @ adapatername @ '': '') e))
                                     | None \<Rightarrow> do {
                                         logPrintf ''Successfully restarted Mellanox network adapter'' [];
                                         (regvalue, err) \<leftarrow> ExecutePowershellCommand env
                                           (itemPropertyQuery (registryKeyPrefix @ registryKeySuffix));
                                         (case err of
                                            Some e \<Rightarrow> State_Monad.return
                                              (Some (wrapError (''error while executing powershell command to get item property  ''
                                                       @ adapatername @ '': '') e))
                                          | None \<Rightarrow>
                                              if regvalue \<noteq> fmt_d regvalueForVLANTag then State_Monad.return
                                                (Some (errorString (''for Mellanox CX-3 adapter, reg key was not found to be ''
                                                   @ fmt_d regvalueForVLANTag @ '' during post-check'')))
                                              else do {
                                                logPrintf ''For Mellanox CX-3 adapters, the reg key set to %d''
                                                  [ArgInt regvalueForVLANTag];
                                                State_Monad.return None
                                              })
                                       })
                                  })
                             })
                        })
                 })
          })
   }\<close>

section \<open>A scripted machine\<close>

text \<open>
  A machine for running the model on concrete inputs: \<^verbatim>\<open>powershell.exe\<close> is on the path,
  and the machine holds the results of the processes still to come, handing out the
  first one to whatever is run (a failure once the script is used up).
\<close>

definition ok :: "string \<Rightarrow> run_result" where
  "ok out = \<lparr>run_err = None, stdout_buf = out, stderr_buf = ''''\<rparr>"

definition failing :: "string \<Rightarrow> string \<Rightarrow> string \<Rightarrow> run_result" where
  "failing e out errout = \<lparr>run_err = Some e, stdout_buf = out, stderr_buf = errout\<rparr>"

definition scripted :: "(run_result list) exec_env" where
  "scripted =
     \<lparr>LookPath = (\<lambda>file w. Some ''powershell.exe''),
      Run = (\<lambda>name args w.
        case w of [] \<Rightarrow> (failing ''exit status 1'' '''' '''', [])
        | r # rs \<Rightarrow> (r, rs))\<rparr>"

definition boot :: "'w \<Rightarrow> 'w sys" where
  "boot w = \<lparr>world = w, procs = [], logs = [], sdnRemoteArpMacAddressSet = False\<rparr>"

text \<open>Rounds of a schedule: a tick and no cancellation; a cancellation and no tick; a
  cancellation with a tick ready that the runtime picks.\<close>

definition tick :: round where
  "tick = \<lparr>ctx_err = None, tick_ready = True, pick_tick = False\<rparr>"

definition cancelled :: round where
  "cancelled = \<lparr>ctx_err = Some (errorString ''context canceled''), tick_ready = False, pick_tick = False\<rparr>"

definition cancelled_tick_first :: round where
  "cancelled_tick_first =
     \<lparr>ctx_err = Some (errorString ''context canceled''), tick_ready = True, pick_tick = True\<rparr>"

section \<open>The legacy action step by step\<close>

text \<open>
  The executor calls of \<^verbatim>\<open>setMellanoxPriorityVLANTagValueForV3\<close> in the order the function
  makes them, each run in the state its predecessor left: the device ID lookup, the
  driver key lookup, the assembled registry path, the query of the current value, the
  write and the restart. The theorems on the legacy action are stated on these steps.
\<close>

definition v3_device :: "'w exec_env \<Rightarrow> 'w sys \<Rightarrow> (string \<times> error option) \<times> 'w sys" where
  "v3_device env s =
     run_state (ExecutePowershellCommand env deviceIDQuery)
       (s\<lparr>logs := logs s @
          [log_Printf ''Searching through CIM instances for Network devices with %s in the name''
             [ArgString mellanoxSearchString]]\<rparr>)"

definition v3_driver :: "'w exec_env \<Rightarrow> 'w sys \<Rightarrow> (string \<times> error option) \<times> 'w sys" where
  "v3_driver env s =
     run_state (ExecutePowershellCommand env (driverKeyQuery (fst (fst (v3_device env s)))))
       ((snd (v3_device env s))\<lparr>logs := logs (snd (v3_device env s)) @
          [log_Printf ''Device ID found and Getting PNP device properites for %s''
             [ArgString (fst (fst (v3_device env s)))]]\<rparr>)"

definition v3_path :: "'w exec_env \<Rightarrow> 'w sys \<Rightarrow> string" where
  "v3_path env s = registryKeyPrefix @ fst (fst (v3_driver env s))"

definition v3_query :: "'w exec_env \<Rightarrow> string \<Rightarrow> 'w sys \<Rightarrow> (int \<times> error option) \<times> 'w sys" where
  "v3_query env adapterName s =
     run_state (getMellanoxPriorityVLANTagValueForV3 env (v3_path env s) adapterName)
       (snd (v3_driver env s))"

definition v3_write :: "'w exec_env \<Rightarrow> string \<Rightarrow> 'w sys \<Rightarrow> (string \<times> error option) \<times> 'w sys" where
  "v3_write env adapterName s =
     run_state (ExecutePowershellCommand env
         (itemPropertyWrite (v3_path env s) desiredRegValueForVLANTag))
       (snd (v3_query env adapterName s))"

definition v3_restart :: "'w exec_env \<Rightarrow> string \<Rightarrow> 'w sys \<Rightarrow> (string \<times> error option) \<times> 'w sys" where
  "v3_restart env adapterName s =
     run_state (ExecutePowershellCommand env (restartNetAdapter adapterName))
       ((snd (v3_write env adapterName s))\<lparr>logs := logs (snd (v3_write env adapterName s)) @
          [log_Printf ''Restarting Mellanox network adapter for regkey change to take effect'' []]\<rparr>)"

lemmas v3_stage_defs = v3_device_def v3_driver_def v3_path_def v3_query_def v3_write_def v3_restart_def

text \<open>The log of a later state extends the log of an earlier one.\<close>

definition log_grows :: "'w sys \<Rightarrow> 'w sys \<Rightarrow> bool" where
  "log_grows s s' \<longleftrightarrow> (\<exists>l. logs s' = logs s @ l)"

section \<open>Properties of the library functions\<close>

declare trimLeft.simps [simp del] trimRight.simps [simp del] digits.simps [simp del]

lemma find_spaceRunes_pos: "find P spaceRunes = Some r \<Longrightarrow> 0 < length r"
  by (auto simp: spaceRunes_def split: if_splits)

lemma leadingSpace_trimLeft: "leadingSpace (trimLeft s) = 0"
  by (induction s rule: trimLeft.induct) (subst trimLeft.simps, simp)

lemma trailingSpace_trimRight: "trailingSpace (trimRight s) = 0"
  by (induction s rule: trimRight.induct) (subst trimRight.simps, simp)

lemma leadingSpace_take: "leadingSpace s = 0 \<Longrightarrow> leadingSpace (take n s) = 0"
proof (cases "take n s")
  case Nil
  then show ?thesis unfolding leadingSpace_def by (simp only: list.case)
next
  case (Cons c cs)
  assume z: "leadingSpace s = 0"
  from Cons obtain cs' where s: "s = c # cs'"
    by (cases s) (auto simp: take_Cons' split: if_splits)
  from z s have nasc: "\<not> asciiSpace c"
    by (auto simp: leadingSpace_def)
  have none: "find (\<lambda>r. take (length r) s = r) spaceRunes = None"
  proof (cases "find (\<lambda>r. take (length r) s = r) spaceRunes")
    case None
    then show ?thesis .
  next
    case (Some r)
    then have "0 < length r" by (rule find_spaceRunes_pos)
    with z s nasc Some show ?thesis by (simp add: leadingSpace_def)
  qed
  have "find (\<lambda>r. take (length r) (take n s) = r) spaceRunes = None"
  proof (rule ccontr)
    assume "find (\<lambda>r. take (length r) (take n s) = r) spaceRunes \<noteq> None"
    then obtain r where r: "r \<in> set spaceRunes" "take (length r) (take n s) = r"
      by (auto simp: find_None_iff)
    from r(2) have "length (take (length r) (take n s)) = length r" by simp
    then have "length r \<le> n" by simp
    with r(2) have "take (length r) s = r" by (simp add: min_def)
    with r(1) none show False by (auto simp: find_None_iff)
  qed
  with Cons nasc show ?thesis by (simp add: leadingSpace_def)
qed

lemma leadingSpace_trimRight: "leadingSpace s = 0 \<Longrightarrow> leadingSpace (trimRight s) = 0"
proof (induction s rule: trimRight.induct)
  case (1 s)
  show ?case
  proof (cases "trailingSpace s = 0")
    case True
    with "1.prems" show ?thesis by (subst trimRight.simps) simp
  next
    case False
    with "1.IH" "1.prems" show ?thesis
      by (subst trimRight.simps) (simp add: leadingSpace_take)
  qed
qed

lemma trimLeft_suffix: "\<exists>a. s = a @ trimLeft s"
proof (induction s rule: trimLeft.induct)
  case (1 s)
  show ?case
  proof (cases "leadingSpace s = 0")
    case True
    then show ?thesis by (subst trimLeft.simps) simp
  next
    case False
    with "1.IH" obtain a where "drop (leadingSpace s) s = a @ trimLeft (drop (leadingSpace s) s)"
      by blast
    then have "s = (take (leadingSpace s) s @ a) @ trimLeft (drop (leadingSpace s) s)"
      by (metis append_take_drop_id append.assoc)
    with False show ?thesis by (subst trimLeft.simps) (simp only: if_False, blast)
  qed
qed

lemma trimRight_prefix: "\<exists>b. s = trimRight s @ b"
proof (induction s rule: trimRight.induct)
  case (1 s)
  show ?case
  proof (cases "trailingSpace s = 0")
    case True
    then show ?thesis by (subst trimRight.simps) simp
  next
    case False
    let ?t = "take (length s - trailingSpace s) s"
    from False "1.IH" obtain b where "?t = trimRight ?t @ b"
      by blast
    then have "s = trimRight ?t @ (b @ drop (length s - trailingSpace s) s)"
      by (metis append_take_drop_id append.assoc)
    with False show ?thesis by (subst trimRight.simps) (simp only: if_False, blast)
  qed
qed

lemma TrimSpace_trimmed:
  "leadingSpace (TrimSpace s) = 0 \<and> trailingSpace (TrimSpace s) = 0"
  by (simp add: TrimSpace_def leadingSpace_trimRight leadingSpace_trimLeft trailingSpace_trimRight)

lemma TrimSpace_infix: "\<exists>a b. s = a @ TrimSpace s @ b"
proof -
  obtain a where a: "s = a @ trimLeft s" using trimLeft_suffix by blast
  obtain b where b: "trimLeft s = trimRight (trimLeft s) @ b" using trimRight_prefix by blast
  from a b have "s = a @ TrimSpace s @ b" by (simp add: TrimSpace_def)
  then show ?thesis by blast
qed

section \<open>Properties of the executors\<close>

lemma run_logPrintf [simp]:
  "run_state (logPrintf f as) s = ((), s\<lparr>logs := logs s @ [log_Printf f as]\<rparr>)"
  by (simp add: logPrintf_def)

lemma run_logErrorf [simp]:
  "run_state (logErrorf f as) s = ((), s\<lparr>logs := logs s @ [log_Errorf f as]\<rparr>)"
  by (simp add: logErrorf_def)

lemma run_update [simp]: "run_state (State_Monad.update f) s = ((), f s)"
  by (simp add: State_Monad.update_def)

lemma issued_simps [simp]:
  "issued (s\<lparr>logs := l\<rparr>) = issued s"
  "issued (s\<lparr>sdnRemoteArpMacAddressSet := b\<rparr>) = issued s"
  "issued (s\<lparr>world := w\<rparr>) = issued s"
  "issued (s\<lparr>procs := p\<rparr>) = map snd p"
  by (simp_all add: issued_def)

lemma EPC_run:
  "run_state (ExecutePowershellCommand env c) s =
     (case LookPath env ''powershell.exe'' (world s) of
        None \<Rightarrow> (('''', Some (errorString ''Failed to find powershell executable'')), s)
      | Some ps \<Rightarrow>
          (case Run env ps [c] (world s) of
             (r, w') \<Rightarrow>
               ((case run_err r of
                   Some e \<Rightarrow> ('''', Some (errorString (e @ '':'' @ stderr_buf r)))
                 | None \<Rightarrow> (TrimSpace (stdout_buf r), None)),
                s\<lparr>logs := logs s @ [log_Printf ''[Azure-Utils] %s'' [ArgString c]],
                  world := w', procs := procs s @ [(ps, [c])]\<rparr>)))"
  by (simp add: ExecutePowershellCommand_def logPrintf_def cmdRun_def
      split: option.splits prod.splits)

lemma EC_run:
  "run_state (ExecuteCommand env c) s =
     (case Run env ''cmd'' [''/c'', c] (world s) of
        (r, w') \<Rightarrow>
          ((case run_err r of
              Some e \<Rightarrow> ('''', Some (errorString (e @ '':'' @ stderr_buf r)))
            | None \<Rightarrow> (stdout_buf r, None)),
           s\<lparr>logs := logs s @ [log_Printf ''[Azure-Utils] %s'' [ArgString c]],
             world := w', procs := procs s @ [(''cmd'', [''/c'', c])]\<rparr>))"
  by (simp add: ExecuteCommand_def logPrintf_def cmdRun_def
      split: option.splits prod.splits)

lemma EPC_ok_issued:
  "run_state (ExecutePowershellCommand env c) s = ((out, None), s') \<Longrightarrow> issued s' = issued s @ [[c]]"
  by (auto simp: EPC_run issued_def split: option.splits prod.splits)

lemma EPC_found_issued:
  "LookPath env ''powershell.exe'' (world s) \<noteq> None \<Longrightarrow>
   issued (snd (run_state (ExecutePowershellCommand env c) s)) = issued s @ [[c]]"
  by (auto simp: EPC_run issued_def split: option.splits prod.splits)

lemma EPC_issued:
  "run_state (ExecutePowershellCommand env c) s = (r, s') \<Longrightarrow>
   issued s' = issued s \<or> issued s' = issued s @ [[c]]"
  by (auto simp: EPC_run issued_def split: option.splits prod.splits)

lemma EPC_flag:
  "run_state (ExecutePowershellCommand env c) s = (r, s') \<Longrightarrow>
   sdnRemoteArpMacAddressSet s' = sdnRemoteArpMacAddressSet s"
  by (auto simp: EPC_run split: option.splits prod.splits)

subsection \<open>The log only grows\<close>

lemma log_grows_refl [simp]: "log_grows s s"
  by (simp add: log_grows_def)

lemma log_grows_trans: "log_grows a b \<Longrightarrow> log_grows b c \<Longrightarrow> log_grows a c"
  by (auto simp: log_grows_def)

lemma log_grows_append [simp]: "log_grows s (s\<lparr>logs := logs s @ l\<rparr>)"
  by (simp add: log_grows_def)

lemma log_grows_mem: "log_grows s s' \<Longrightarrow> x \<in> set (logs s) \<Longrightarrow> x \<in> set (logs s')"
  by (auto simp: log_grows_def)

lemma EPC_log_grows: "log_grows s (snd (run_state (ExecutePowershellCommand env c) s))"
  by (simp add: EPC_run log_grows_def split: option.splits prod.splits)

subsection \<open>Running the scripted machine\<close>

lemma scripted_LookPath [simp]: "LookPath scripted file w = Some ''powershell.exe''"
  by (simp add: scripted_def)

lemma scripted_Run_Cons [simp]: "Run scripted name args (r # rs) = (r, rs)"
  by (simp add: scripted_def)

lemma scripted_Run_Nil [simp]: "Run scripted name args [] = (failing ''exit status 1'' '''' '''', [])"
  by (simp add: scripted_def)

lemma boot_simps [simp]:
  "world (boot w) = w" "procs (boot w) = []" "logs (boot w) = []"
  "sdnRemoteArpMacAddressSet (boot w) = False"
  by (simp_all add: boot_def)

lemma issued_boot [simp]: "issued (boot w) = []"
  by (simp add: issued_def)

lemma ok_simps [simp]:
  "run_err (ok out) = None" "stdout_buf (ok out) = out" "stderr_buf (ok out) = ''''"
  by (simp_all add: ok_def)

lemma failing_simps [simp]:
  "run_err (failing e out errout) = Some e" "stdout_buf (failing e out errout) = out"
  "stderr_buf (failing e out errout) = errout"
  by (simp_all add: failing_def)

lemma TrimSpace_Nil [simp]: "TrimSpace '''' = ''''"
  by code_simp

lemma TrimSpace_samples [simp]:
  "TrimSpace ''0'' = ''0''" "TrimSpace ''1'' = ''1''" "TrimSpace ''3'' = ''3''"
  "TrimSpace ''Ethernet 2'' = ''Ethernet 2''"
  "TrimSpace ''PCI-VEN_15B3'' = ''PCI-VEN_15B3''"
  "TrimSpace ''{4d36e972}-0003'' = ''{4d36e972}-0003''"
  by code_simp+

lemma Atoi_samples [simp]:
  "Atoi ''3'' = (3, None)" "Atoi ''0'' = (0, None)" "Atoi ''1'' = (1, None)"
  "Atoi '''' = (0, Some (NumError ''Atoi'' '''' ErrSyntax))"
  by code_simp+

lemma fmt_d_3 [simp]: "fmt_d 3 = ''3''"
  by code_simp

lemma go_select_tick [simp]: "go_select tick = Some case_Tick"
  by (simp add: go_select_def tick_def)

lemma go_select_cancelled [simp]:
  "go_select cancelled = Some case_Done"
  "ctx_err cancelled = Some (errorString ''context canceled'')"
  by (simp_all add: go_select_def cancelled_def)

lemma go_select_cancelled_tick_first [simp]:
  "go_select cancelled_tick_first = Some case_Tick"
  "ctx_err cancelled_tick_first = Some (errorString ''context canceled'')"
  by (simp_all add: go_select_def cancelled_tick_first_def)

lemma interval_30 [simp]: "\<not> monitorInterval 30 \<le>s 0"
  by (simp add: monitorInterval_def word_sle_eq word_sless_alt Second_def)

section \<open>C10: what the executors return\<close>

text \<open>
  C10. For every command string, the PowerShell executor returns the empty string
  whenever it returns an error, the error of a failed run being the message of
  \<^verbatim>\<open>Run\<close>, a colon and the captured standard error; when the run succeeds it returns
  standard output with the surrounding white space trimmed (what it returns neither
  starts nor ends with a white space rune, and is a contiguous part of standard output).
  The cmd-shell executor returns standard output as it is.
\<close>

theorem C10_executor_results:
  "fst (run_state (ExecutePowershellCommand env command) s) =
     (case LookPath env ''powershell.exe'' (world s) of
        None \<Rightarrow> ('''', Some (errorString ''Failed to find powershell executable''))
      | Some ps \<Rightarrow>
          (case run_err (fst (Run env ps [command] (world s))) of
             Some e \<Rightarrow> ('''', Some (errorString (e @ '':'' @ stderr_buf (fst (Run env ps [command] (world s))))))
           | None \<Rightarrow> (TrimSpace (stdout_buf (fst (Run env ps [command] (world s)))), None)))
   \<and> (snd (fst (run_state (ExecutePowershellCommand env command) s)) \<noteq> None \<longrightarrow>
        fst (fst (run_state (ExecutePowershellCommand env command) s)) = '''')
   \<and> leadingSpace (TrimSpace out) = 0 \<and> trailingSpace (TrimSpace out) = 0
   \<and> (\<exists>a b. out = a @ TrimSpace out @ b)
   \<and> fst (run_state (ExecuteCommand env command) s) =
        (case run_err (fst (Run env ''cmd'' [''/c'', command] (world s))) of
           Some e \<Rightarrow> ('''', Some (errorString (e @ '':'' @ stderr_buf (fst (Run env ''cmd'' [''/c'', command] (world s))))))
         | None \<Rightarrow> (stdout_buf (fst (Run env ''cmd'' [''/c'', command] (world s))), None))"
proof -
  have 1: "fst (run_state (ExecutePowershellCommand env command) s) =
     (case LookPath env ''powershell.exe'' (world s) of
        None \<Rightarrow> ('''', Some (errorString ''Failed to find powershell executable''))
      | Some ps \<Rightarrow>
          (case run_err (fst (Run env ps [command] (world s))) of
             Some e \<Rightarrow> ('''', Some (errorString (e @ '':'' @ stderr_buf (fst (Run env ps [command] (world s))))))
           | None \<Rightarrow> (TrimSpace (stdout_buf (fst (Run env ps [command] (world s)))), None)))"
    by (simp add: EPC_run split: option.splits prod.splits)
  have 2: "snd (fst (run_state (ExecutePowershellCommand env command) s)) \<noteq> None \<longrightarrow>
        fst (fst (run_state (ExecutePowershellCommand env command) s)) = ''''"
    by (simp add: EPC_run split: option.splits prod.splits)
  have 3: "fst (run_state (ExecuteCommand env command) s) =
        (case run_err (fst (Run env ''cmd'' [''/c'', command] (world s))) of
           Some e \<Rightarrow> ('''', Some (errorString (e @ '':'' @ stderr_buf (fst (Run env ''cmd'' [''/c'', command] (world s))))))
         | None \<Rightarrow> (stdout_buf (fst (Run env ''cmd'' [''/c'', command] (world s))), None))"
    by (simp add: EC_run split: option.splits prod.splits)
  from 1 2 3 TrimSpace_trimmed [of out] TrimSpace_infix [of out] show ?thesis
    by (intro conjI) blast+
qed

text \<open>The two executors on a failing run and on a run that prints blanks around its answer.\<close>

theorem C10_executor_results_witness:
  "fst (run_state (ExecutePowershellCommand scripted ''hostname'')
         (boot [failing ''exit status 1'' ''partial output'' ''no such cmdlet''])) =
     ('''', Some (errorString ''exit status 1:no such cmdlet''))
   \<and> fst (run_state (ExecutePowershellCommand scripted ''hostname'') (boot [ok '' node-1  ''])) =
     (''node-1'', None)
   \<and> fst (run_state (ExecuteCommand scripted ''hostname'') (boot [ok '' node-1  ''])) =
     ('' node-1  '', None)"
proof -
  have t: "TrimSpace '' node-1  '' = ''node-1''"
    by code_simp
  show ?thesis
    using C10_executor_results [of scripted "''hostname''"
        "boot [failing ''exit status 1'' ''partial output'' ''no such cmdlet'']" "''''"]
      C10_executor_results [of scripted "''hostname''" "boot [ok '' node-1  '']" "''''"]
    by (simp add: t)
qed

section \<open>C5: the one-shot ARP setter\<close>

text \<open>
  C5. For every invocation of the one-shot ARP setter: with the flag set it returns
  \<^verbatim>\<open>nil\<close> and leaves the state as it was (no command). With the flag unset it runs the
  query; the flag is set at the end exactly when the call returns \<^verbatim>\<open>nil\<close>, so an error
  of the query, of the write or of the restart leaves it unset. An error of the query is
  returned at once. A query that answers the desired value sets the flag with the query
  as the only command. Otherwise the write is run; when it fails its error is returned
  and no restart follows; when it succeeds the restart is run, the call returns what the
  restart returned, and the flag is set exactly when the restart succeeded, after the
  three commands query, write, restart.
\<close>

theorem C5_one_shot_setter:
  "(sdnRemoteArpMacAddressSet s \<longrightarrow> run_state (SetSdnRemoteArpMacAddress env) s = (None, s))
   \<and> (\<not> sdnRemoteArpMacAddressSet s \<longrightarrow>
       (let q = run_state (ExecutePowershellCommand env GetSdnRemoteArpMacAddressCommand) s;
            r = run_state (SetSdnRemoteArpMacAddress env) s
        in (fst r \<noteq> None \<longrightarrow> \<not> sdnRemoteArpMacAddressSet (snd r))
         \<and> (fst r = None \<longrightarrow> sdnRemoteArpMacAddressSet (snd r))
         \<and> (snd (fst q) \<noteq> None \<longrightarrow> r = (snd (fst q), snd q))
         \<and> (fst q = (SDNRemoteArpMacAddress, None) \<longrightarrow>
              r = (None, (snd q)\<lparr>sdnRemoteArpMacAddressSet := True\<rparr>)
              \<and> issued (snd r) = issued s @ [[GetSdnRemoteArpMacAddressCommand]])
         \<and> (snd (fst q) = None \<and> fst (fst q) \<noteq> SDNRemoteArpMacAddress \<longrightarrow>
              (let w = run_state (ExecutePowershellCommand env SetSdnRemoteArpMacAddressCommand) (snd q)
               in (snd (fst w) \<noteq> None \<longrightarrow>
                     fst r = snd (fst w)
                     \<and> (issued (snd r) = issued s @ [[GetSdnRemoteArpMacAddressCommand]]
                        \<or> issued (snd r) = issued s @ [[GetSdnRemoteArpMacAddressCommand],
                                                         [SetSdnRemoteArpMacAddressCommand]]))
                \<and> (snd (fst w) = None \<longrightarrow>
                     (let t = run_state (ExecutePowershellCommand env RestartHnsServiceCommand)
                                ((snd w)\<lparr>logs := logs (snd w) @
                                   [log_Printf ''[Azure CNS] SDNRemoteArpMacAddress regKey set successfully. Restarting hns service.'' []]\<rparr>)
                      in fst r = snd (fst t)
                       \<and> (sdnRemoteArpMacAddressSet (snd r) \<longleftrightarrow> snd (fst t) = None)
                       \<and> (snd (fst t) = None \<longrightarrow>
                            issued (snd r) = issued s @ [[GetSdnRemoteArpMacAddressCommand],
                              [SetSdnRemoteArpMacAddressCommand], [RestartHnsServiceCommand]])))))))"
  (is "?A \<and> (?nf \<longrightarrow> ?B)")
proof -
  obtain result err s1 where
    q: "run_state (ExecutePowershellCommand env GetSdnRemoteArpMacAddressCommand) s = ((result, err), s1)"
    by (metis prod.collapse)
  obtain out2 err2 s2 where
    w: "run_state (ExecutePowershellCommand env SetSdnRemoteArpMacAddressCommand) s1 = ((out2, err2), s2)"
    by (metis prod.collapse)
  obtain out3 err3 s3 where
    t: "run_state (ExecutePowershellCommand env RestartHnsServiceCommand)
          (s2\<lparr>logs := logs s2 @
             [log_Printf ''[Azure CNS] SDNRemoteArpMacAddress regKey set successfully. Restarting hns service.'' []]\<rparr>)
        = ((out3, err3), s3)"
    by (metis prod.collapse)
  note fl = EPC_flag [OF q] EPC_flag [OF w] EPC_flag [OF t]
  note iq = EPC_issued [OF q] EPC_issued [OF w] EPC_issued [OF t]
  have iok: "err = None \<Longrightarrow> issued s1 = issued s @ [[GetSdnRemoteArpMacAddressCommand]]"
    "err2 = None \<Longrightarrow> issued s2 = issued s1 @ [[SetSdnRemoteArpMacAddressCommand]]"
    "err3 = None \<Longrightarrow> issued s3 = issued s2 @ [[RestartHnsServiceCommand]]"
    using EPC_ok_issued q w t by fastforce+
  have a: ?A
    by (simp add: SetSdnRemoteArpMacAddress_def)
  have r: "\<not> sdnRemoteArpMacAddressSet s \<Longrightarrow> run_state (SetSdnRemoteArpMacAddress env) s =
     (if err \<noteq> None then (err, s1)
      else if result = SDNRemoteArpMacAddress then (None, s1\<lparr>sdnRemoteArpMacAddressSet := True\<rparr>)
      else if err2 \<noteq> None then (err2, s2\<lparr>logs := logs s2 @
              [log_Printf ''Failed to set SDNRemoteArpMacAddress due to error %s'' [ArgError err2]]\<rparr>)
      else if err3 \<noteq> None then (err3, s3\<lparr>logs := logs s3 @
              [log_Printf ''Failed to Restart HNS Service due to error %s'' [ArgError err3]]\<rparr>)
      else (None, s3\<lparr>sdnRemoteArpMacAddressSet := True\<rparr>))"
    using q w t by (simp add: SetSdnRemoteArpMacAddress_def)
  have b: "?nf \<longrightarrow> ?B"
  proof
    assume nf: ?nf
    show ?B
      unfolding Let_def r [OF nf] q w fst_conv snd_conv
      using nf fl iq iok t
      by (cases err; cases err2; cases err3) auto
  qed
  from a b show ?thesis by blast
qed

text \<open>The setter on the scripted machine: flag already set; query fails; query answers
  the desired value; all three commands succeed; the write fails; the restart fails.\<close>

theorem C5_one_shot_setter_witness:
  "run_state (SetSdnRemoteArpMacAddress scripted) ((boot [ok ''x''])\<lparr>sdnRemoteArpMacAddressSet := True\<rparr>)
     = (None, (boot [ok ''x''])\<lparr>sdnRemoteArpMacAddressSet := True\<rparr>)
   \<and> fst (run_state (SetSdnRemoteArpMacAddress scripted) (boot [failing ''exit status 1'' '''' ''denied'']))
       = Some (errorString ''exit status 1:denied'')
   \<and> \<not> sdnRemoteArpMacAddressSet
         (snd (run_state (SetSdnRemoteArpMacAddress scripted) (boot [failing ''exit status 1'' '''' ''denied''])))
   \<and> fst (run_state (SetSdnRemoteArpMacAddress scripted) (boot [ok ''12-34-56-78-9a-bc''])) = None
   \<and> sdnRemoteArpMacAddressSet
         (snd (run_state (SetSdnRemoteArpMacAddress scripted) (boot [ok ''12-34-56-78-9a-bc''])))
   \<and> issued (snd (run_state (SetSdnRemoteArpMacAddress scripted) (boot [ok ''12-34-56-78-9a-bc''])))
       = [[GetSdnRemoteArpMacAddressCommand]]
   \<and> fst (run_state (SetSdnRemoteArpMacAddress scripted) (boot [ok '''', ok '''', ok ''''])) = None
   \<and> sdnRemoteArpMacAddressSet
         (snd (run_state (SetSdnRemoteArpMacAddress scripted) (boot [ok '''', ok '''', ok ''''])))
   \<and> issued (snd (run_state (SetSdnRemoteArpMacAddress scripted) (boot [ok '''', ok '''', ok ''''])))
       = [[GetSdnRemoteArpMacAddressCommand], [SetSdnRemoteArpMacAddressCommand], [RestartHnsServiceCommand]]
   \<and> fst (run_state (SetSdnRemoteArpMacAddress scripted)
         (boot [ok '''', failing ''exit status 1'' '''' ''read only'', ok '''']))
       = Some (errorString ''exit status 1:read only'')
   \<and> \<not> sdnRemoteArpMacAddressSet (snd (run_state (SetSdnRemoteArpMacAddress scripted)
         (boot [ok '''', failing ''exit status 1'' '''' ''read only'', ok ''''])))
   \<and> issued (snd (run_state (SetSdnRemoteArpMacAddress scripted)
         (boot [ok '''', failing ''exit status 1'' '''' ''read only'', ok ''''])))
       = [[GetSdnRemoteArpMacAddressCommand], [SetSdnRemoteArpMacAddressCommand]]
   \<and> fst (run_state (SetSdnRemoteArpMacAddress scripted)
         (boot [ok '''', ok '''', failing ''exit status 1'' '''' ''hns stuck'']))
       = Some (errorString ''exit status 1:hns stuck'')
   \<and> \<not> sdnRemoteArpMacAddressSet (snd (run_state (SetSdnRemoteArpMacAddress scripted)
         (boot [ok '''', ok '''', failing ''exit status 1'' '''' ''hns stuck''])))"
proof -
  have t: "TrimSpace ''12-34-56-78-9a-bc'' = ''12-34-56-78-9a-bc''"
    by code_simp
  show ?thesis
    using C5_one_shot_setter [of "(boot [ok ''x''])\<lparr>sdnRemoteArpMacAddressSet := True\<rparr>" scripted]
      C5_one_shot_setter [of "boot [failing ''exit status 1'' '''' ''denied'']" scripted]
      C5_one_shot_setter [of "boot [ok ''12-34-56-78-9a-bc'']" scripted]
      C5_one_shot_setter [of "boot [ok '''', ok '''', ok '''']" scripted]
      C5_one_shot_setter [of "boot [ok '''', failing ''exit status 1'' '''' ''read only'', ok '''']" scripted]
      C5_one_shot_setter [of "boot [ok '''', ok '''', failing ''exit status 1'' '''' ''hns stuck'']" scripted]
    by (simp add: EPC_run Let_def t SDNRemoteArpMacAddress_def SetSdnRemoteArpMacAddress_def)
qed

section \<open>C3: the direct-property action\<close>

lemma getV4_run:
  "run_state (getMellanoxPriorityVLANTagValueForV4 env a) s =
     (case run_state (ExecutePowershellCommand env (advancedPropertyQuery a)) s of
        ((regvalue, err), s1) \<Rightarrow>
          ((case err of
              Some e \<Rightarrow> (0, Some e)
            | None \<Rightarrow>
                (case Atoi regvalue of
                   (_, Some e) \<Rightarrow> (0, Some (wrapError ''failed to convert PriorityVLANTag value to integer: '' e))
                 | (v, None) \<Rightarrow> (v, None))), s1))"
  by (simp add: getMellanoxPriorityVLANTagValueForV4_def split: prod.splits option.splits)

lemma getV4_state:
  "snd (run_state (getMellanoxPriorityVLANTagValueForV4 env a) s) =
   snd (run_state (ExecutePowershellCommand env (advancedPropertyQuery a)) s)"
  by (simp add: getV4_run split: prod.splits)

lemma getV4_ok_issued:
  "run_state (getMellanoxPriorityVLANTagValueForV4 env a) s = ((v, None), s1) \<Longrightarrow>
   issued s1 = issued s @ [[advancedPropertyQuery a]]"
  by (auto simp: getV4_run split: prod.splits option.splits dest: EPC_ok_issued)

lemma getV4_issued:
  "run_state (getMellanoxPriorityVLANTagValueForV4 env a) s = (r, s1) \<Longrightarrow>
   issued s1 = issued s \<or> issued s1 = issued s @ [[advancedPropertyQuery a]]"
  by (auto simp: getV4_run split: prod.splits option.splits dest: EPC_issued)

lemma getV4_log_grows: "log_grows s (snd (run_state (getMellanoxPriorityVLANTagValueForV4 env a) s))"
  by (simp add: getV4_state EPC_log_grows)

lemma setV4_run:
  "run_state (setMellanoxPriorityVLANTagValueForV4 env a) s =
     (case run_state (getMellanoxPriorityVLANTagValueForV4 env a) s of
        ((v, Some e), s1) \<Rightarrow>
          (Some (wrapError ''error while checking registry value for PriorityVLANTag for adapter: '' e), s1)
      | ((v, None), s1) \<Rightarrow>
          if v = desiredRegValueForVLANTag
          then (None, s1\<lparr>logs := logs s1 @
                  [log_Printf ''Mellanox PriorityVLANTag is already set to %v, skipping reset''
                     [ArgInt desiredRegValueForVLANTag]]\<rparr>)
          else (case run_state (ExecutePowershellCommand env
                       (advancedPropertyWrite a desiredRegValueForVLANTag)) s1 of
                  ((out, Some e), s2) \<Rightarrow>
                    (Some (wrapError ''error while setting up registry value for PriorityVLANTag for adapter: '' e), s2)
                | ((out, None), s2) \<Rightarrow>
                    (None, s2\<lparr>logs := logs s2 @
                       [log_Printf ''Successfully set Mellanox Network Adapter: %s with %s property value as %d''
                          [ArgString a, ArgString priorityVLANTagIdentifier,
                           ArgInt desiredRegValueForVLANTag]]\<rparr>)))"
  by (simp add: setMellanoxPriorityVLANTagValueForV4_def split: prod.splits option.splits)

lemma setV4_trace:
  "\<exists>cs. issued (snd (run_state (setMellanoxPriorityVLANTagValueForV4 env a) s)) = issued s @ cs
     \<and> set cs \<subseteq> {[advancedPropertyQuery a], [advancedPropertyWrite a desiredRegValueForVLANTag]}"
proof -
  obtain v err s1 where
    g: "run_state (getMellanoxPriorityVLANTagValueForV4 env a) s = ((v, err), s1)"
    by (metis prod.collapse)
  obtain out werr s2 where
    w: "run_state (ExecutePowershellCommand env
          (advancedPropertyWrite a desiredRegValueForVLANTag)) s1 = ((out, werr), s2)"
    by (metis prod.collapse)
  from getV4_issued [OF g]
  have i1: "issued s1 = issued s @ [] \<or> issued s1 = issued s @ [[advancedPropertyQuery a]]"
    by simp
  from EPC_issued [OF w]
  have i2: "issued s2 = issued s1 @ [] \<or>
      issued s2 = issued s1 @ [[advancedPropertyWrite a desiredRegValueForVLANTag]]"
    by simp
  have "issued (snd (run_state (setMellanoxPriorityVLANTagValueForV4 env a) s)) = issued s1
      \<or> issued (snd (run_state (setMellanoxPriorityVLANTagValueForV4 env a) s)) = issued s2"
    using g w by (cases err; cases werr) (simp_all add: setV4_run)
  with i1 i2 show ?thesis
    by (elim disjE) (simp, fastforce)+
qed

lemma setV4_log_grows: "log_grows s (snd (run_state (setMellanoxPriorityVLANTagValueForV4 env a) s))"
proof -
  obtain v err s1 where
    g: "run_state (getMellanoxPriorityVLANTagValueForV4 env a) s = ((v, err), s1)"
    by (metis prod.collapse)
  obtain out werr s2 where
    w: "run_state (ExecutePowershellCommand env
          (advancedPropertyWrite a desiredRegValueForVLANTag)) s1 = ((out, werr), s2)"
    by (metis prod.collapse)
  from getV4_log_grows [of s env a] g have 1: "log_grows s s1" by simp
  from EPC_log_grows [of s1 env "advancedPropertyWrite a desiredRegValueForVLANTag"] w
  have 2: "log_grows s1 s2" by simp
  have 3: "log_grows s s2" using 1 2 by (rule log_grows_trans)
  have 4: "log_grows s (s1\<lparr>logs := logs s1 @ l\<rparr>)" for l
    using 1 log_grows_append by (rule log_grows_trans)
  have 5: "log_grows s (s2\<lparr>logs := logs s2 @ l\<rparr>)" for l
    using 3 log_grows_append by (rule log_grows_trans)
  show ?thesis
    using g w 1 3 4 5 by (cases err; cases werr) (simp_all add: setV4_run)
qed

text \<open>
  C3 (as amended). For every invocation of the refactored direct-property action
  \<^verbatim>\<open>setMellanoxPriorityVLANTagValueForV4\<close>: it first queries the current value; an error
  of the query is returned, wrapped, with nothing else run; when the current value equals
  the desired one it returns \<^verbatim>\<open>nil\<close> and the query is the only command; otherwise it
  calls the executor on the write once and returns what that call returned, so the
  commands are the query and the write, with no read-back and no restart; and when the
  query after such a call answers the desired value, a second invocation returns \<^verbatim>\<open>nil\<close>
  after its query alone, with no further write.
\<close>

theorem C3_direct_property_action:
  "(let g = run_state (getMellanoxPriorityVLANTagValueForV4 env adapterName) s;
        r = run_state (setMellanoxPriorityVLANTagValueForV4 env adapterName) s;
        w = run_state (ExecutePowershellCommand env
              (advancedPropertyWrite adapterName desiredRegValueForVLANTag)) (snd g)
    in (snd (fst g) \<noteq> None \<longrightarrow>
          fst r = map_option
            (wrapError ''error while checking registry value for PriorityVLANTag for adapter: '')
            (snd (fst g))
          \<and> snd r = snd g)
     \<and> (fst g = (desiredRegValueForVLANTag, None) \<longrightarrow>
          fst r = None \<and> issued (snd r) = issued s @ [[advancedPropertyQuery adapterName]])
     \<and> (snd (fst g) = None \<and> fst (fst g) \<noteq> desiredRegValueForVLANTag \<longrightarrow>
          fst r = map_option
            (wrapError ''error while setting up registry value for PriorityVLANTag for adapter: '')
            (snd (fst w))
          \<and> (LookPath env ''powershell.exe'' (world (snd g)) \<noteq> None \<longrightarrow>
               issued (snd r) = issued s @ [[advancedPropertyQuery adapterName],
                 [advancedPropertyWrite adapterName desiredRegValueForVLANTag]])
          \<and> (fst (run_state (getMellanoxPriorityVLANTagValueForV4 env adapterName) (snd r))
                 = (desiredRegValueForVLANTag, None) \<longrightarrow>
               fst (run_state (setMellanoxPriorityVLANTagValueForV4 env adapterName) (snd r)) = None
               \<and> issued (snd (run_state (setMellanoxPriorityVLANTagValueForV4 env adapterName) (snd r)))
                   = issued (snd r) @ [[advancedPropertyQuery adapterName]])))"
proof -
  obtain v err s1 where
    g: "run_state (getMellanoxPriorityVLANTagValueForV4 env adapterName) s = ((v, err), s1)"
    by (metis prod.collapse)
  obtain out werr s2 where
    w: "run_state (ExecutePowershellCommand env
          (advancedPropertyWrite adapterName desiredRegValueForVLANTag)) s1 = ((out, werr), s2)"
    by (metis prod.collapse)
  have again: "fst (run_state (getMellanoxPriorityVLANTagValueForV4 env adapterName) s') =
      (desiredRegValueForVLANTag, None) \<Longrightarrow>
    fst (run_state (setMellanoxPriorityVLANTagValueForV4 env adapterName) s') = None
    \<and> issued (snd (run_state (setMellanoxPriorityVLANTagValueForV4 env adapterName) s'))
        = issued s' @ [[advancedPropertyQuery adapterName]]" for s'
  proof -
    assume a: "fst (run_state (getMellanoxPriorityVLANTagValueForV4 env adapterName) s') =
      (desiredRegValueForVLANTag, None)"
    obtain s1' where g': "run_state (getMellanoxPriorityVLANTagValueForV4 env adapterName) s' =
        ((desiredRegValueForVLANTag, None), s1')"
      using a by (metis prod.collapse)
    from getV4_ok_issued [OF g'] g' show ?thesis
      by (simp add: setV4_run)
  qed
  have found: "LookPath env ''powershell.exe'' (world s1) \<noteq> None \<Longrightarrow>
      issued s2 = issued s1 @ [[advancedPropertyWrite adapterName desiredRegValueForVLANTag]]"
    using EPC_found_issued [of env s1 "advancedPropertyWrite adapterName desiredRegValueForVLANTag"] w
    by simp
  show ?thesis
    unfolding Let_def
    using g w again found getV4_ok_issued [of env adapterName s v s1]
    by (cases err; cases werr) (auto simp: setV4_run)
qed

text \<open>The action on a machine whose query fails, on an adapter that already has the
  value 3, and twice in a row on an adapter that has the value 1 and takes the write.\<close>

theorem C3_direct_property_action_witness:
  "fst (run_state (setMellanoxPriorityVLANTagValueForV4 scripted ''Ethernet 2'')
          (boot [failing ''exit status 1'' '''' ''no adapter''])) =
     Some (wrapError ''error while checking registry value for PriorityVLANTag for adapter: ''
       (errorString ''exit status 1:no adapter''))
   \<and> issued (snd (run_state (setMellanoxPriorityVLANTagValueForV4 scripted ''Ethernet 2'')
          (boot [failing ''exit status 1'' '''' ''no adapter''])))
       = [[advancedPropertyQuery ''Ethernet 2'']]
   \<and> fst (run_state (setMellanoxPriorityVLANTagValueForV4 scripted ''Ethernet 2'') (boot [ok ''3''])) = None
   \<and> issued (snd (run_state (setMellanoxPriorityVLANTagValueForV4 scripted ''Ethernet 2'') (boot [ok ''3''])))
       = [[advancedPropertyQuery ''Ethernet 2'']]
   \<and> fst (run_state (setMellanoxPriorityVLANTagValueForV4 scripted ''Ethernet 2'')
          (boot [ok ''1'', ok '''', ok ''3''])) = None
   \<and> issued (snd (run_state (setMellanoxPriorityVLANTagValueForV4 scripted ''Ethernet 2'')
          (boot [ok ''1'', ok '''', ok ''3''])))
       = [[advancedPropertyQuery ''Ethernet 2''], [advancedPropertyWrite ''Ethernet 2'' 3]]
   \<and> issued (snd (run_state (setMellanoxPriorityVLANTagValueForV4 scripted ''Ethernet 2'')
          (snd (run_state (setMellanoxPriorityVLANTagValueForV4 scripted ''Ethernet 2'')
             (boot [ok ''1'', ok '''', ok ''3''])))))
       = [[advancedPropertyQuery ''Ethernet 2''], [advancedPropertyWrite ''Ethernet 2'' 3],
          [advancedPropertyQuery ''Ethernet 2'']]"
  using C3_direct_property_action [of scripted "''Ethernet 2''" "boot [failing ''exit status 1'' '''' ''no adapter'']"]
    C3_direct_property_action [of scripted "''Ethernet 2''" "boot [ok ''3'']"]
    C3_direct_property_action [of scripted "''Ethernet 2''" "boot [ok ''1'', ok '''', ok ''3'']"]
  by (simp add: Let_def setV4_run getV4_run EPC_run desiredRegValueForVLANTag_def)

text \<open>
  C3 as stated fails on the direct-property branch of the earlier revision
  (\<^verbatim>\<open>SetMellanoxRegKeyPriorityVLANTag\<close>): it writes without querying first and then reads
  the value back.
\<close>

theorem C3_earlier_revision_counterexample:
  "fst (run_state (SetMellanoxRegKeyPriorityVLANTag scripted)
          (boot [ok ''Ethernet 2'', ok ''Ethernet 2'', ok '''', ok ''3''])) = None
   \<and> issued (snd (run_state (SetMellanoxRegKeyPriorityVLANTag scripted)
          (boot [ok ''Ethernet 2'', ok ''Ethernet 2'', ok '''', ok ''3''])))
       = [[adapterNameQuery], [vlanTagProbe ''Ethernet 2''],
          [advancedPropertyWrite ''Ethernet 2'' 3],
          ['' '' @ advancedPropertyQuery ''Ethernet 2'']]"
  by (simp add: SetMellanoxRegKeyPriorityVLANTag_def EPC_run regvalueForVLANTag_def)

section \<open>The legacy action\<close>

lemma getV3_run:
  "run_state (getMellanoxPriorityVLANTagValueForV3 env path a) s =
     (case run_state (ExecutePowershellCommand env (itemPropertyQuery path)) s of
        ((regvalue, err), s1) \<Rightarrow>
          ((case err of
              Some e \<Rightarrow> (0, Some e)
            | None \<Rightarrow>
                (case Atoi regvalue of
                   (_, Some e) \<Rightarrow> (0, Some (wrapError ''failed to convert PriorityVLANTag value to integer: '' e))
                 | (v, None) \<Rightarrow> (v, None))), s1))"
  by (simp add: getMellanoxPriorityVLANTagValueForV3_def split: prod.splits option.splits)

lemma getV3_state:
  "snd (run_state (getMellanoxPriorityVLANTagValueForV3 env path a) s) =
   snd (run_state (ExecutePowershellCommand env (itemPropertyQuery path)) s)"
  by (simp add: getV3_run split: prod.splits)

lemma getV3_ok_issued:
  "run_state (getMellanoxPriorityVLANTagValueForV3 env path a) s = ((v, None), s1) \<Longrightarrow>
   issued s1 = issued s @ [[itemPropertyQuery path]]"
  by (auto simp: getV3_run split: prod.splits option.splits dest: EPC_ok_issued)

lemma getV3_issued:
  "run_state (getMellanoxPriorityVLANTagValueForV3 env path a) s = (r, s1) \<Longrightarrow>
   issued s1 = issued s \<or> issued s1 = issued s @ [[itemPropertyQuery path]]"
  by (auto simp: getV3_run split: prod.splits option.splits dest: EPC_issued)

lemma getV3_log_grows: "log_grows s (snd (run_state (getMellanoxPriorityVLANTagValueForV3 env p a) s))"
  by (simp add: getV3_state EPC_log_grows)

lemma setV3_run:
  "run_state (setMellanoxPriorityVLANTagValueForV3 env a) s =
     (case snd (fst (v3_device env s)) of
        Some e \<Rightarrow>
          (Some (wrapError (''error while executing powershell command to get device id of '' @ a @ '': '') e),
           snd (v3_device env s))
      | None \<Rightarrow>
          if fst (fst (v3_device env s)) = ''''
          then (Some (errorString (''no network device found with '' @ mellanoxSearchString @ '' in description'')),
                snd (v3_device env s))
          else
            (case snd (fst (v3_driver env s)) of
               Some e \<Rightarrow>
                 (Some (wrapError (''error while executing powershell command to get registry suffix of device id ''
                          @ fst (fst (v3_device env s)) @ '': '') e),
                  snd (v3_driver env s))
             | None \<Rightarrow>
                 (case snd (fst (v3_query env a s)) of
                    Some e \<Rightarrow>
                      (Some (wrapError ''error while checking registry value for PriorityVLANTag for adapter: '' e),
                       snd (v3_query env a s))
                  | None \<Rightarrow>
                      if fst (fst (v3_query env a s)) = desiredRegValueForVLANTag
                      then (None, (snd (v3_query env a s))\<lparr>logs := logs (snd (v3_query env a s)) @
                              [log_Printf ''Mellanox PriorityVLANTag is already set to %v, skipping reset''
                                 [ArgInt desiredRegValueForVLANTag]]\<rparr>)
                      else
                        (case snd (fst (v3_write env a s)) of
                           Some e \<Rightarrow>
                             (Some (wrapError (''error while executing powershell command to set Item property for device id  ''
                                      @ fst (fst (v3_device env s)) @ '': '') e),
                              snd (v3_write env a s))
                         | None \<Rightarrow>
                             (case snd (fst (v3_restart env a s)) of
                                Some e \<Rightarrow>
                                  (Some (wrapError (''error while executing powershell command to restart net adapter  ''
                                           @ a @ '': '') e),
                                   snd (v3_restart env a s))
                              | None \<Rightarrow>
                                  (None, (snd (v3_restart env a s))\<lparr>logs := logs (snd (v3_restart env a s)) @
                                     [log_Printf ''For Mellanox CX-3 adapters, the reg key set to %d''
                                        [ArgInt desiredRegValueForVLANTag]]\<rparr>))))))"
proof -
  obtain deviceid derr s1 where d: "v3_device env s = ((deviceid, derr), s1)"
    by (metis prod.collapse)
  obtain suffix kerr s2 where k: "v3_driver env s = ((suffix, kerr), s2)"
    by (metis prod.collapse)
  obtain v qerr s3 where q: "v3_query env a s = ((v, qerr), s3)"
    by (metis prod.collapse)
  obtain out werr s4 where w: "v3_write env a s = ((out, werr), s4)"
    by (metis prod.collapse)
  obtain out' rerr s5 where r: "v3_restart env a s = ((out', rerr), s5)"
    by (metis prod.collapse)
  note d' = d [unfolded v3_device_def]
  have k': "run_state (ExecutePowershellCommand env (driverKeyQuery deviceid))
      (s1\<lparr>logs := logs s1 @
          [log_Printf ''Device ID found and Getting PNP device properites for %s''
             [ArgString deviceid]]\<rparr>) = ((suffix, kerr), s2)"
    using k by (simp add: v3_driver_def d)
  have p: "v3_path env s = registryKeyPrefix @ suffix"
    by (simp add: v3_path_def k)
  have q': "run_state (getMellanoxPriorityVLANTagValueForV3 env (registryKeyPrefix @ suffix) a) s2
      = ((v, qerr), s3)"
    using q by (simp add: v3_query_def p k)
  have w': "run_state (ExecutePowershellCommand env
         (itemPropertyWrite (registryKeyPrefix @ suffix) desiredRegValueForVLANTag)) s3
      = ((out, werr), s4)"
    using w by (simp add: v3_write_def p q)
  have r': "run_state (ExecutePowershellCommand env (restartNetAdapter a))
       (s4\<lparr>logs := logs s4 @
          [log_Printf ''Restarting Mellanox network adapter for regkey change to take effect'' []]\<rparr>)
      = ((out', rerr), s5)"
    using r by (simp add: v3_restart_def w)
  show ?thesis
    unfolding d k q w r fst_conv snd_conv
    by (simp add: setMellanoxPriorityVLANTagValueForV3_def d' k' q' w' r'
        split: option.splits)
qed

lemma v3_device_issued:
  "issued (snd (v3_device env s)) = issued s \<or> issued (snd (v3_device env s)) = issued s @ [[deviceIDQuery]]"
  "snd (fst (v3_device env s)) = None \<Longrightarrow> issued (snd (v3_device env s)) = issued s @ [[deviceIDQuery]]"
proof -
  obtain x e s1 where d: "v3_device env s = ((x, e), s1)" by (metis prod.collapse)
  from EPC_issued [OF d [unfolded v3_device_def]] d
  show "issued (snd (v3_device env s)) = issued s \<or> issued (snd (v3_device env s)) = issued s @ [[deviceIDQuery]]"
    by simp
  assume "snd (fst (v3_device env s)) = None"
  with d have "e = None" by simp
  from EPC_ok_issued [OF d [unfolded v3_device_def this]] d
  show "issued (snd (v3_device env s)) = issued s @ [[deviceIDQuery]]" by simp
qed

lemma v3_driver_issued:
  "issued (snd (v3_driver env s)) = issued (snd (v3_device env s)) \<or>
   issued (snd (v3_driver env s)) =
     issued (snd (v3_device env s)) @ [[driverKeyQuery (fst (fst (v3_device env s)))]]"
  "snd (fst (v3_driver env s)) = None \<Longrightarrow>
   issued (snd (v3_driver env s)) =
     issued (snd (v3_device env s)) @ [[driverKeyQuery (fst (fst (v3_device env s)))]]"
proof -
  obtain x e s1 where d: "v3_driver env s = ((x, e), s1)" by (metis prod.collapse)
  from EPC_issued [OF d [unfolded v3_driver_def]] d
  show "issued (snd (v3_driver env s)) = issued (snd (v3_device env s)) \<or>
   issued (snd (v3_driver env s)) =
     issued (snd (v3_device env s)) @ [[driverKeyQuery (fst (fst (v3_device env s)))]]"
    by simp
  assume "snd (fst (v3_driver env s)) = None"
  with d have "e = None" by simp
  from EPC_ok_issued [OF d [unfolded v3_driver_def this]] d
  show "issued (snd (v3_driver env s)) =
     issued (snd (v3_device env s)) @ [[driverKeyQuery (fst (fst (v3_device env s)))]]" by simp
qed

lemma v3_query_issued:
  "issued (snd (v3_query env a s)) = issued (snd (v3_driver env s)) \<or>
   issued (snd (v3_query env a s)) = issued (snd (v3_driver env s)) @ [[itemPropertyQuery (v3_path env s)]]"
  "snd (fst (v3_query env a s)) = None \<Longrightarrow>
   issued (snd (v3_query env a s)) = issued (snd (v3_driver env s)) @ [[itemPropertyQuery (v3_path env s)]]"
proof -
  obtain x e s1 where d: "v3_query env a s = ((x, e), s1)" by (metis prod.collapse)
  from getV3_issued [OF d [unfolded v3_query_def]] d
  show "issued (snd (v3_query env a s)) = issued (snd (v3_driver env s)) \<or>
   issued (snd (v3_query env a s)) = issued (snd (v3_driver env s)) @ [[itemPropertyQuery (v3_path env s)]]"
    by simp
  assume "snd (fst (v3_query env a s)) = None"
  with d have "e = None" by simp
  from getV3_ok_issued [OF d [unfolded v3_query_def this]] d
  show "issued (snd (v3_query env a s)) = issued (snd (v3_driver env s)) @ [[itemPropertyQuery (v3_path env s)]]"
    by simp
qed

lemma v3_write_issued:
  "issued (snd (v3_write env a s)) = issued (snd (v3_query env a s)) \<or>
   issued (snd (v3_write env a s)) =
     issued (snd (v3_query env a s)) @ [[itemPropertyWrite (v3_path env s) desiredRegValueForVLANTag]]"
  "snd (fst (v3_write env a s)) = None \<Longrightarrow>
   issued (snd (v3_write env a s)) =
     issued (snd (v3_query env a s)) @ [[itemPropertyWrite (v3_path env s) desiredRegValueForVLANTag]]"
proof -
  obtain x e s1 where d: "v3_write env a s = ((x, e), s1)" by (metis prod.collapse)
  from EPC_issued [OF d [unfolded v3_write_def]] d
  show "issued (snd (v3_write env a s)) = issued (snd (v3_query env a s)) \<or>
   issued (snd (v3_write env a s)) =
     issued (snd (v3_query env a s)) @ [[itemPropertyWrite (v3_path env s) desiredRegValueForVLANTag]]"
    by simp
  assume "snd (fst (v3_write env a s)) = None"
  with d have "e = None" by simp
  from EPC_ok_issued [OF d [unfolded v3_write_def this]] d
  show "issued (snd (v3_write env a s)) =
     issued (snd (v3_query env a s)) @ [[itemPropertyWrite (v3_path env s) desiredRegValueForVLANTag]]"
    by simp
qed

lemma v3_restart_issued:
  "issued (snd (v3_restart env a s)) = issued (snd (v3_write env a s)) \<or>
   issued (snd (v3_restart env a s)) = issued (snd (v3_write env a s)) @ [[restartNetAdapter a]]"
proof -
  obtain x e s1 where d: "v3_restart env a s = ((x, e), s1)" by (metis prod.collapse)
  from EPC_issued [OF d [unfolded v3_restart_def]] d
  show ?thesis by simp
qed

lemma v3_stage_log_grows:
  "log_grows s (snd (v3_device env s))"
  "log_grows (snd (v3_device env s)) (snd (v3_driver env s))"
  "log_grows (snd (v3_driver env s)) (snd (v3_query env a s))"
  "log_grows (snd (v3_query env a s)) (snd (v3_write env a s))"
  "log_grows (snd (v3_write env a s)) (snd (v3_restart env a s))"
proof -
  show "log_grows s (snd (v3_device env s))"
    unfolding v3_device_def by (rule log_grows_trans [OF log_grows_append EPC_log_grows])
  show "log_grows (snd (v3_device env s)) (snd (v3_driver env s))"
    unfolding v3_driver_def by (rule log_grows_trans [OF log_grows_append EPC_log_grows])
  show "log_grows (snd (v3_driver env s)) (snd (v3_query env a s))"
    unfolding v3_query_def by (rule getV3_log_grows)
  show "log_grows (snd (v3_query env a s)) (snd (v3_write env a s))"
    unfolding v3_write_def by (rule EPC_log_grows)
  show "log_grows (snd (v3_write env a s)) (snd (v3_restart env a s))"
    unfolding v3_restart_def by (rule log_grows_trans [OF log_grows_append EPC_log_grows])
qed

lemma setV3_log_grows: "log_grows s (snd (run_state (setMellanoxPriorityVLANTagValueForV3 env a) s))"
proof -
  have d: "log_grows s (snd (v3_device env s))"
    by (rule v3_stage_log_grows(1))
  have k: "log_grows s (snd (v3_driver env s))"
    using d v3_stage_log_grows(2) by (rule log_grows_trans)
  have q: "log_grows s (snd (v3_query env a s))"
    using k v3_stage_log_grows(3) by (rule log_grows_trans)
  have w: "log_grows s (snd (v3_write env a s))"
    using q v3_stage_log_grows(4) by (rule log_grows_trans)
  have r: "log_grows s (snd (v3_restart env a s))"
    using w v3_stage_log_grows(5) by (rule log_grows_trans)
  have q': "log_grows s ((snd (v3_query env a s))\<lparr>logs := logs (snd (v3_query env a s)) @ l\<rparr>)" for l
    using q log_grows_append by (rule log_grows_trans)
  have r': "log_grows s ((snd (v3_restart env a s))\<lparr>logs := logs (snd (v3_restart env a s)) @ l\<rparr>)" for l
    using r log_grows_append by (rule log_grows_trans)
  show ?thesis
    using d k q w r q' r' by (simp add: setV3_run split: option.splits)
qed

lemma restart_not_other:
  "restartNetAdapter a \<noteq> deviceIDQuery"
  "restartNetAdapter a \<noteq> driverKeyQuery d"
  "restartNetAdapter a \<noteq> itemPropertyQuery p"
  "restartNetAdapter a \<noteq> itemPropertyWrite p v"
  by (simp_all add: restartNetAdapter_def deviceIDQuery_def driverKeyQuery_def
      itemPropertyQuery_def itemPropertyWrite_def)

lemma setV3_trace_incomplete:
  assumes n: "\<not> (snd (fst (v3_device env s)) = None \<and> fst (fst (v3_device env s)) \<noteq> ''''
      \<and> snd (fst (v3_driver env s)) = None
      \<and> snd (fst (v3_query env a s)) = None
      \<and> fst (fst (v3_query env a s)) \<noteq> desiredRegValueForVLANTag
      \<and> snd (fst (v3_write env a s)) = None)"
  shows "\<exists>cs. issued (snd (run_state (setMellanoxPriorityVLANTagValueForV3 env a) s)) = issued s @ cs
      \<and> set cs \<subseteq> {[deviceIDQuery], [driverKeyQuery (fst (fst (v3_device env s)))],
          [itemPropertyQuery (v3_path env s)],
          [itemPropertyWrite (v3_path env s) desiredRegValueForVLANTag]}"
proof -
  let ?r = "run_state (setMellanoxPriorityVLANTagValueForV3 env a) s"
  let ?dev = "[deviceIDQuery]"
  let ?drv = "[driverKeyQuery (fst (fst (v3_device env s)))]"
  let ?qry = "[itemPropertyQuery (v3_path env s)]"
  let ?wrt = "[itemPropertyWrite (v3_path env s) desiredRegValueForVLANTag]"
  have pre: "issued (snd ?r) = issued s @ cs \<Longrightarrow> set cs \<subseteq> set [?dev, ?drv, ?qry, ?wrt] \<Longrightarrow> ?thesis" for cs
    by (rule exI [of _ cs]) auto
  consider (derr) "snd (fst (v3_device env s)) \<noteq> None"
    | (dempty) "snd (fst (v3_device env s)) = None" "fst (fst (v3_device env s)) = ''''"
    | (kerr) "snd (fst (v3_device env s)) = None" "fst (fst (v3_device env s)) \<noteq> ''''"
        "snd (fst (v3_driver env s)) \<noteq> None"
    | (qerr) "snd (fst (v3_device env s)) = None" "fst (fst (v3_device env s)) \<noteq> ''''"
        "snd (fst (v3_driver env s)) = None" "snd (fst (v3_query env a s)) \<noteq> None"
    | (same) "snd (fst (v3_device env s)) = None" "fst (fst (v3_device env s)) \<noteq> ''''"
        "snd (fst (v3_driver env s)) = None" "snd (fst (v3_query env a s)) = None"
        "fst (fst (v3_query env a s)) = desiredRegValueForVLANTag"
    | (werr) "snd (fst (v3_device env s)) = None" "fst (fst (v3_device env s)) \<noteq> ''''"
        "snd (fst (v3_driver env s)) = None" "snd (fst (v3_query env a s)) = None"
        "fst (fst (v3_query env a s)) \<noteq> desiredRegValueForVLANTag"
        "snd (fst (v3_write env a s)) \<noteq> None"
    using n by argo
  then show ?thesis
  proof cases
    case derr
    then have "snd ?r = snd (v3_device env s)"
      by (auto simp: setV3_run)
    with v3_device_issued(1) [of env s]
    have "issued (snd ?r) = issued s @ [] \<or> issued (snd ?r) = issued s @ [?dev]" by simp
    then show ?thesis using pre by fastforce
  next
    case dempty
    then have "snd ?r = snd (v3_device env s)"
      by (simp add: setV3_run)
    with v3_device_issued(2) [of env s] dempty
    have "issued (snd ?r) = issued s @ [?dev]" by simp
    then show ?thesis using pre by fastforce
  next
    case kerr
    then have "snd ?r = snd (v3_driver env s)"
      by (auto simp: setV3_run)
    with v3_device_issued(2) [of env s] v3_driver_issued(1) [of env s] kerr
    have "issued (snd ?r) = issued s @ [?dev] \<or> issued (snd ?r) = issued s @ [?dev, ?drv]" by auto
    then show ?thesis using pre by fastforce
  next
    case qerr
    then have "snd ?r = snd (v3_query env a s)"
      by (auto simp: setV3_run)
    with v3_device_issued(2) [of env s] v3_driver_issued(2) [of env s]
      v3_query_issued(1) [of env a s] qerr
    have "issued (snd ?r) = issued s @ [?dev, ?drv] \<or> issued (snd ?r) = issued s @ [?dev, ?drv, ?qry]"
      by auto
    then show ?thesis using pre by fastforce
  next
    case same
    then have "issued (snd ?r) = issued (snd (v3_query env a s))"
      by (simp add: setV3_run)
    with v3_device_issued(2) [of env s] v3_driver_issued(2) [of env s]
      v3_query_issued(2) [of env a s] same
    have "issued (snd ?r) = issued s @ [?dev, ?drv, ?qry]"
      by auto
    then show ?thesis using pre by fastforce
  next
    case werr
    then have "snd ?r = snd (v3_write env a s)"
      by (auto simp: setV3_run)
    with v3_device_issued(2) [of env s] v3_driver_issued(2) [of env s]
      v3_query_issued(2) [of env a s] v3_write_issued(1) [of env a s] werr
    have "issued (snd ?r) = issued s @ [?dev, ?drv, ?qry]
        \<or> issued (snd ?r) = issued s @ [?dev, ?drv, ?qry, ?wrt]"
      by auto
    then show ?thesis using pre by fastforce
  qed
qed

lemma setV3_no_restart:
  assumes "\<not> (snd (fst (v3_device env s)) = None \<and> fst (fst (v3_device env s)) \<noteq> ''''
      \<and> snd (fst (v3_driver env s)) = None
      \<and> snd (fst (v3_query env a s)) = None
      \<and> fst (fst (v3_query env a s)) \<noteq> desiredRegValueForVLANTag
      \<and> snd (fst (v3_write env a s)) = None)"
  shows "\<exists>cs. issued (snd (run_state (setMellanoxPriorityVLANTagValueForV3 env a) s)) = issued s @ cs
      \<and> [restartNetAdapter a] \<notin> set cs"
proof -
  have "[restartNetAdapter a] \<notin> {[deviceIDQuery], [driverKeyQuery (fst (fst (v3_device env s)))],
          [itemPropertyQuery (v3_path env s)],
          [itemPropertyWrite (v3_path env s) desiredRegValueForVLANTag]}"
    by (simp add: restart_not_other)
  with setV3_trace_incomplete [OF assms] show ?thesis by blast
qed

lemma setV3_trace:
  "\<exists>cs. issued (snd (run_state (setMellanoxPriorityVLANTagValueForV3 env a) s)) = issued s @ cs
     \<and> set cs \<subseteq> {[deviceIDQuery], [driverKeyQuery (fst (fst (v3_device env s)))],
          [itemPropertyQuery (v3_path env s)],
          [itemPropertyWrite (v3_path env s) desiredRegValueForVLANTag],
          [restartNetAdapter a]}"
proof (cases "snd (fst (v3_device env s)) = None \<and> fst (fst (v3_device env s)) \<noteq> ''''
      \<and> snd (fst (v3_driver env s)) = None
      \<and> snd (fst (v3_query env a s)) = None
      \<and> fst (fst (v3_query env a s)) \<noteq> desiredRegValueForVLANTag
      \<and> snd (fst (v3_write env a s)) = None")
  case True
  then have "issued (snd (run_state (setMellanoxPriorityVLANTagValueForV3 env a) s))
      = issued (snd (v3_restart env a s))"
    by (auto simp: setV3_run split: option.splits)
  with True v3_device_issued(2) [of env s] v3_driver_issued(2) [of env s]
    v3_query_issued(2) [of env a s] v3_write_issued(2) [of env a s] v3_restart_issued [of env a s]
  have "issued (snd (run_state (setMellanoxPriorityVLANTagValueForV3 env a) s))
      = issued s @ [[deviceIDQuery], [driverKeyQuery (fst (fst (v3_device env s)))],
          [itemPropertyQuery (v3_path env s)],
          [itemPropertyWrite (v3_path env s) desiredRegValueForVLANTag]]
    \<or> issued (snd (run_state (setMellanoxPriorityVLANTagValueForV3 env a) s))
      = issued s @ [[deviceIDQuery], [driverKeyQuery (fst (fst (v3_device env s)))],
          [itemPropertyQuery (v3_path env s)],
          [itemPropertyWrite (v3_path env s) desiredRegValueForVLANTag],
          [restartNetAdapter a]]"
    by auto
  then show ?thesis
    by (elim disjE) (rule exI, rule conjI, assumption, simp)+
next
  case False
  from setV3_trace_incomplete [OF this] show ?thesis by blast
qed

lemma setV3_after_query:
  assumes "snd (fst (v3_device env s)) = None" "fst (fst (v3_device env s)) \<noteq> ''''"
    "snd (fst (v3_driver env s)) = None"
  shows "\<exists>cs. issued (snd (run_state (setMellanoxPriorityVLANTagValueForV3 env a) s))
      = issued (snd (v3_query env a s)) @ cs"
proof -
  let ?r = "run_state (setMellanoxPriorityVLANTagValueForV3 env a) s"
  consider (qerr) "snd (fst (v3_query env a s)) \<noteq> None"
    | (same) "snd (fst (v3_query env a s)) = None"
        "fst (fst (v3_query env a s)) = desiredRegValueForVLANTag"
    | (werr) "snd (fst (v3_query env a s)) = None"
        "fst (fst (v3_query env a s)) \<noteq> desiredRegValueForVLANTag"
        "snd (fst (v3_write env a s)) \<noteq> None"
    | (rerr) "snd (fst (v3_query env a s)) = None"
        "fst (fst (v3_query env a s)) \<noteq> desiredRegValueForVLANTag"
        "snd (fst (v3_write env a s)) = None"
    by argo
  then show ?thesis
  proof cases
    case qerr
    with assms have "snd ?r = snd (v3_query env a s)" by (auto simp: setV3_run)
    then show ?thesis by simp
  next
    case same
    with assms have "issued (snd ?r) = issued (snd (v3_query env a s))" by (simp add: setV3_run)
    then show ?thesis by simp
  next
    case werr
    with assms have "snd ?r = snd (v3_write env a s)" by (auto simp: setV3_run)
    with v3_write_issued(1) [of env a s] show ?thesis by auto
  next
    case rerr
    with assms have "issued (snd ?r) = issued (snd (v3_restart env a s))"
      by (auto simp: setV3_run split: option.splits)
    with v3_write_issued(1) [of env a s] v3_restart_issued [of env a s] show ?thesis by auto
  qed
qed

section \<open>C2: no restart without a mismatch\<close>

text \<open>
  C2 (as amended). For every invocation of the refactored legacy action
  \<^verbatim>\<open>setMellanoxPriorityVLANTagValueForV3\<close> in which the queried registry value equals the
  desired value, the call returns \<^verbatim>\<open>nil\<close> and its commands are the three reads (device
  ID, driver key, value): no write and no restart. And whenever the restart command is
  among the commands of a call, the value query had succeeded with a value different from
  the desired one and the write had succeeded.
\<close>

theorem C2_no_false_restart:
  "(snd (fst (v3_device env s)) = None \<and> fst (fst (v3_device env s)) \<noteq> ''''
      \<and> snd (fst (v3_driver env s)) = None
      \<and> fst (v3_query env adapterName s) = (desiredRegValueForVLANTag, None) \<longrightarrow>
      fst (run_state (setMellanoxPriorityVLANTagValueForV3 env adapterName) s) = None
      \<and> issued (snd (run_state (setMellanoxPriorityVLANTagValueForV3 env adapterName) s))
          = issued s @ [[deviceIDQuery], [driverKeyQuery (fst (fst (v3_device env s)))],
                        [itemPropertyQuery (v3_path env s)]])
   \<and> (issued (snd (run_state (setMellanoxPriorityVLANTagValueForV3 env adapterName) s)) = issued s @ cs
       \<and> [restartNetAdapter adapterName] \<in> set cs \<longrightarrow>
      snd (fst (v3_device env s)) = None \<and> fst (fst (v3_device env s)) \<noteq> ''''
      \<and> snd (fst (v3_driver env s)) = None
      \<and> snd (fst (v3_query env adapterName s)) = None
      \<and> fst (fst (v3_query env adapterName s)) \<noteq> desiredRegValueForVLANTag
      \<and> snd (fst (v3_write env adapterName s)) = None)"
  (is "(?H1 \<longrightarrow> ?C1) \<and> (?H2 \<longrightarrow> ?C2)")
proof -
  have 1: "?H1 \<longrightarrow> ?C1"
  proof
    assume h: ?H1
    then have q: "snd (fst (v3_query env adapterName s)) = None"
      "fst (fst (v3_query env adapterName s)) = desiredRegValueForVLANTag"
      by simp_all
    from h q have "fst (run_state (setMellanoxPriorityVLANTagValueForV3 env adapterName) s) = None"
      "issued (snd (run_state (setMellanoxPriorityVLANTagValueForV3 env adapterName) s))
        = issued (snd (v3_query env adapterName s))"
      by (simp_all add: setV3_run)
    with h q v3_device_issued(2) [of env s] v3_driver_issued(2) [of env s]
      v3_query_issued(2) [of env adapterName s]
    show ?C1 by simp
  qed
  have 2: "?H2 \<longrightarrow> ?C2"
  proof
    assume h: ?H2
    show ?C2
    proof (rule ccontr)
      assume "\<not> ?C2"
      from setV3_no_restart [OF this] h show False by auto
    qed
  qed
  from 1 2 show ?thesis by blast
qed

text \<open>The legacy action on a registry value that is already 3, and on one that is 0.\<close>

theorem C2_no_false_restart_witness:
  "fst (run_state (setMellanoxPriorityVLANTagValueForV3 scripted ''Ethernet 2'')
          (boot [ok ''PCI-VEN_15B3'', ok ''{4d36e972}-0003'', ok ''3''])) = None
   \<and> issued (snd (run_state (setMellanoxPriorityVLANTagValueForV3 scripted ''Ethernet 2'')
          (boot [ok ''PCI-VEN_15B3'', ok ''{4d36e972}-0003'', ok ''3''])))
       = [[deviceIDQuery], [driverKeyQuery ''PCI-VEN_15B3''],
          [itemPropertyQuery (registryKeyPrefix @ ''{4d36e972}-0003'')]]
   \<and> issued (snd (run_state (setMellanoxPriorityVLANTagValueForV3 scripted ''Ethernet 2'')
          (boot [ok ''PCI-VEN_15B3'', ok ''{4d36e972}-0003'', ok ''0'', ok '''', ok ''''])))
       = [[deviceIDQuery], [driverKeyQuery ''PCI-VEN_15B3''],
          [itemPropertyQuery (registryKeyPrefix @ ''{4d36e972}-0003'')],
          [itemPropertyWrite (registryKeyPrefix @ ''{4d36e972}-0003'') 3],
          [restartNetAdapter ''Ethernet 2'']]
   \<and> fst (v3_query scripted ''Ethernet 2''
          (boot [ok ''PCI-VEN_15B3'', ok ''{4d36e972}-0003'', ok ''0'', ok '''', ok ''''])) = (0, None)
   \<and> snd (fst (v3_write scripted ''Ethernet 2''
          (boot [ok ''PCI-VEN_15B3'', ok ''{4d36e972}-0003'', ok ''0'', ok '''', ok '''']))) = None"
proof -
  have run: "issued (snd (run_state (setMellanoxPriorityVLANTagValueForV3 scripted ''Ethernet 2'')
          (boot [ok ''PCI-VEN_15B3'', ok ''{4d36e972}-0003'', ok ''0'', ok '''', ok ''''])))
       = [[deviceIDQuery], [driverKeyQuery ''PCI-VEN_15B3''],
          [itemPropertyQuery (registryKeyPrefix @ ''{4d36e972}-0003'')],
          [itemPropertyWrite (registryKeyPrefix @ ''{4d36e972}-0003'') 3],
          [restartNetAdapter ''Ethernet 2'']]"
    by (simp add: setMellanoxPriorityVLANTagValueForV3_def EPC_run getV3_run
        desiredRegValueForVLANTag_def)
  show ?thesis
    using C2_no_false_restart [of scripted "boot [ok ''PCI-VEN_15B3'', ok ''{4d36e972}-0003'', ok ''3'']"
        "''Ethernet 2''" "[]"]
      C2_no_false_restart [of scripted
        "boot [ok ''PCI-VEN_15B3'', ok ''{4d36e972}-0003'', ok ''0'', ok '''', ok '''']"
        "''Ethernet 2''"
        "[[deviceIDQuery], [driverKeyQuery ''PCI-VEN_15B3''],
          [itemPropertyQuery (registryKeyPrefix @ ''{4d36e972}-0003'')],
          [itemPropertyWrite (registryKeyPrefix @ ''{4d36e972}-0003'') 3],
          [restartNetAdapter ''Ethernet 2'']]"]
      run
    by (simp add: v3_stage_defs EPC_run getV3_run desiredRegValueForVLANTag_def)
qed

text \<open>
  C2 as stated fails on the legacy branch of the earlier revision
  (\<^verbatim>\<open>SetMellanoxRegKeyPriorityVLANTag\<close>): it writes and restarts the adapter before its
  only query of the value, here a value that is read back as 3.
\<close>

theorem C2_earlier_revision_counterexample:
  "fst (run_state (SetMellanoxRegKeyPriorityVLANTag scripted)
          (boot [ok ''Ethernet 2'', ok '''', ok ''PCI-VEN_15B3'', ok ''{4d36e972}-0003'',
                 ok '''', ok '''', ok ''3''])) = None
   \<and> issued (snd (run_state (SetMellanoxRegKeyPriorityVLANTag scripted)
          (boot [ok ''Ethernet 2'', ok '''', ok ''PCI-VEN_15B3'', ok ''{4d36e972}-0003'',
                 ok '''', ok '''', ok ''3''])))
       = [[adapterNameQuery], [vlanTagProbe ''Ethernet 2''], [deviceIDQuery],
          [driverKeyQuery ''PCI-VEN_15B3''],
          [itemPropertyWrite (registryKeyPrefix @ ''{4d36e972}-0003'') 3],
          [restartNetAdapter ''Ethernet 2''],
          [itemPropertyQuery (registryKeyPrefix @ ''{4d36e972}-0003'')]]"
  by (simp add: SetMellanoxRegKeyPriorityVLANTag_def EPC_run regvalueForVLANTag_def)

section \<open>C9: a failed query of the value\<close>

text \<open>
  C9. In the refactored legacy path, when the device ID and the driver key were found and
  the query of the current registry value at the assembled path fails, the call returns
  that error, wrapped, in the state the query left: its commands are the two lookups and
  the query, and neither the creating write nor the restart is issued. The query fails
  when the executor fails and also when what it prints is not an integer, as the empty
  output for a value that does not exist.
\<close>

theorem C9_failed_query_creates_nothing:
  "(snd (fst (v3_device env s)) = None \<and> fst (fst (v3_device env s)) \<noteq> ''''
      \<and> snd (fst (v3_driver env s)) = None
      \<and> snd (fst (v3_query env adapterName s)) \<noteq> None \<longrightarrow>
      fst (run_state (setMellanoxPriorityVLANTagValueForV3 env adapterName) s)
        = map_option (wrapError ''error while checking registry value for PriorityVLANTag for adapter: '')
            (snd (fst (v3_query env adapterName s)))
      \<and> snd (run_state (setMellanoxPriorityVLANTagValueForV3 env adapterName) s)
        = snd (v3_query env adapterName s)
      \<and> (issued (snd (run_state (setMellanoxPriorityVLANTagValueForV3 env adapterName) s))
            = issued s @ [[deviceIDQuery], [driverKeyQuery (fst (fst (v3_device env s)))]]
         \<or> issued (snd (run_state (setMellanoxPriorityVLANTagValueForV3 env adapterName) s))
            = issued s @ [[deviceIDQuery], [driverKeyQuery (fst (fst (v3_device env s)))],
                          [itemPropertyQuery (v3_path env s)]]))
   \<and> (snd (fst (run_state (getMellanoxPriorityVLANTagValueForV3 env path adapterName) s')) \<noteq> None
        \<longleftrightarrow> snd (fst (run_state (ExecutePowershellCommand env (itemPropertyQuery path)) s')) \<noteq> None
          \<or> snd (Atoi (fst (fst (run_state (ExecutePowershellCommand env (itemPropertyQuery path)) s')))) \<noteq> None)"
  (is "(?H \<longrightarrow> ?C) \<and> ?Q")
proof -
  have 1: "?H \<longrightarrow> ?C"
  proof
    assume h: ?H
    then obtain e where e: "snd (fst (v3_query env adapterName s)) = Some e" by auto
    from h e have r: "run_state (setMellanoxPriorityVLANTagValueForV3 env adapterName) s =
        (Some (wrapError ''error while checking registry value for PriorityVLANTag for adapter: '' e),
         snd (v3_query env adapterName s))"
      by (simp add: setV3_run)
    from h v3_device_issued(2) [of env s] v3_driver_issued(2) [of env s]
      v3_query_issued(1) [of env adapterName s]
    have "issued (snd (v3_query env adapterName s))
            = issued s @ [[deviceIDQuery], [driverKeyQuery (fst (fst (v3_device env s)))]]
         \<or> issued (snd (v3_query env adapterName s))
            = issued s @ [[deviceIDQuery], [driverKeyQuery (fst (fst (v3_device env s)))],
                          [itemPropertyQuery (v3_path env s)]]"
      by auto
    with r e show ?C by simp
  qed
  have 2: ?Q
    by (auto simp: getV3_run split: prod.splits option.splits)
  from 1 2 show ?thesis by blast
qed

text \<open>The legacy action on a machine whose value query prints nothing.\<close>

theorem C9_failed_query_creates_nothing_witness:
  "fst (run_state (setMellanoxPriorityVLANTagValueForV3 scripted ''Ethernet 2'')
          (boot [ok ''PCI-VEN_15B3'', ok ''{4d36e972}-0003'', ok '''', ok '''', ok '''']))
     = Some (wrapError ''error while checking registry value for PriorityVLANTag for adapter: ''
         (wrapError ''failed to convert PriorityVLANTag value to integer: ''
            (NumError ''Atoi'' '''' ErrSyntax)))
   \<and> issued (snd (run_state (setMellanoxPriorityVLANTagValueForV3 scripted ''Ethernet 2'')
          (boot [ok ''PCI-VEN_15B3'', ok ''{4d36e972}-0003'', ok '''', ok '''', ok ''''])))
     = [[deviceIDQuery], [driverKeyQuery ''PCI-VEN_15B3''],
        [itemPropertyQuery (registryKeyPrefix @ ''{4d36e972}-0003'')]]"
  using C9_failed_query_creates_nothing [of scripted
      "boot [ok ''PCI-VEN_15B3'', ok ''{4d36e972}-0003'', ok '''', ok '''', ok '''']"
      "''Ethernet 2''" "''''" "boot []"]
  by (simp add: v3_stage_defs EPC_run getV3_run)

section \<open>C4: the resolution chain\<close>

text \<open>
  C4 (as amended). In the refactored legacy chain an empty device ID makes the call
  return the error that no network device was found, with the lookup as its only
  command; an executor error of the device lookup or of the driver key lookup is
  returned, wrapped, with no further step, so the registry path is not used. A driver
  key suffix that is returned empty without an error does not stop the chain: the path
  is then the bare prefix, and the query of the current value is called on it.
\<close>

theorem C4_resolution_chain:
  "(snd (fst (v3_device env s)) = None \<and> fst (fst (v3_device env s)) = '''' \<longrightarrow>
      run_state (setMellanoxPriorityVLANTagValueForV3 env adapterName) s
        = (Some (errorString ''no network device found with *Mellanox* in description''),
           snd (v3_device env s))
      \<and> issued (snd (run_state (setMellanoxPriorityVLANTagValueForV3 env adapterName) s))
        = issued s @ [[deviceIDQuery]])
   \<and> (snd (fst (v3_device env s)) \<noteq> None \<longrightarrow>
      fst (run_state (setMellanoxPriorityVLANTagValueForV3 env adapterName) s)
        = map_option (wrapError (''error while executing powershell command to get device id of ''
            @ adapterName @ '': '')) (snd (fst (v3_device env s)))
      \<and> snd (run_state (setMellanoxPriorityVLANTagValueForV3 env adapterName) s) = snd (v3_device env s))
   \<and> (snd (fst (v3_device env s)) = None \<and> fst (fst (v3_device env s)) \<noteq> ''''
        \<and> snd (fst (v3_driver env s)) \<noteq> None \<longrightarrow>
      fst (run_state (setMellanoxPriorityVLANTagValueForV3 env adapterName) s)
        = map_option (wrapError (''error while executing powershell command to get registry suffix of device id ''
            @ fst (fst (v3_device env s)) @ '': '')) (snd (fst (v3_driver env s)))
      \<and> snd (run_state (setMellanoxPriorityVLANTagValueForV3 env adapterName) s) = snd (v3_driver env s)
      \<and> (issued (snd (v3_driver env s)) = issued s @ [[deviceIDQuery]]
         \<or> issued (snd (v3_driver env s))
            = issued s @ [[deviceIDQuery], [driverKeyQuery (fst (fst (v3_device env s)))]]))
   \<and> (snd (fst (v3_device env s)) = None \<and> fst (fst (v3_device env s)) \<noteq> ''''
        \<and> fst (v3_driver env s) = ('''', None) \<longrightarrow>
      v3_path env s = registryKeyPrefix
      \<and> v3_query env adapterName s
          = run_state (getMellanoxPriorityVLANTagValueForV3 env registryKeyPrefix adapterName)
              (snd (v3_driver env s))
      \<and> (\<exists>cs. issued (snd (run_state (setMellanoxPriorityVLANTagValueForV3 env adapterName) s))
            = issued (snd (v3_query env adapterName s)) @ cs)
      \<and> (LookPath env ''powershell.exe'' (world (snd (v3_driver env s))) \<noteq> None \<longrightarrow>
           issued (snd (v3_query env adapterName s))
             = issued s @ [[deviceIDQuery], [driverKeyQuery (fst (fst (v3_device env s)))],
                           [itemPropertyQuery registryKeyPrefix]]))"
  (is "(?H1 \<longrightarrow> ?C1) \<and> (?H2 \<longrightarrow> ?C2) \<and> (?H3 \<longrightarrow> ?C3) \<and> (?H4 \<longrightarrow> ?C4)")
proof -
  have 1: "?H1 \<longrightarrow> ?C1"
    using v3_device_issued(2) [of env s]
    by (simp add: setV3_run mellanoxSearchString_def)
  have 2: "?H2 \<longrightarrow> ?C2"
    by (auto simp: setV3_run)
  have 3: "?H3 \<longrightarrow> ?C3"
    using v3_device_issued(2) [of env s] v3_driver_issued(1) [of env s]
    by (auto simp: setV3_run)
  have 4: "?H4 \<longrightarrow> ?C4"
  proof
    assume h: ?H4
    then have k: "snd (fst (v3_driver env s)) = None" "fst (fst (v3_driver env s)) = ''''"
      by simp_all
    have p: "v3_path env s = registryKeyPrefix"
      by (simp add: v3_path_def k)
    have q: "v3_query env adapterName s
          = run_state (getMellanoxPriorityVLANTagValueForV3 env registryKeyPrefix adapterName)
              (snd (v3_driver env s))"
      by (simp add: v3_query_def p)
    have f: "LookPath env ''powershell.exe'' (world (snd (v3_driver env s))) \<noteq> None \<longrightarrow>
           issued (snd (v3_query env adapterName s))
             = issued s @ [[deviceIDQuery], [driverKeyQuery (fst (fst (v3_device env s)))],
                           [itemPropertyQuery registryKeyPrefix]]"
      using h k v3_device_issued(2) [of env s] v3_driver_issued(2) [of env s]
        EPC_found_issued [of env "snd (v3_driver env s)" "itemPropertyQuery registryKeyPrefix"]
      by (simp add: q getV3_state)
    from h k setV3_after_query [of env s adapterName] p q f show ?C4
      by blast
  qed
  from 1 2 3 4 show ?thesis by blast
qed

text \<open>The chain on a machine without a Mellanox device, on one whose device lookup
  fails, on one whose driver key lookup fails, and on one whose driver key is empty.\<close>

theorem C4_resolution_chain_witness:
  "run_state (setMellanoxPriorityVLANTagValueForV3 scripted ''Ethernet 2'') (boot [ok '''', ok ''x''])
     = (Some (errorString ''no network device found with *Mellanox* in description''),
        snd (v3_device scripted (boot [ok '''', ok ''x''])))
   \<and> issued (snd (run_state (setMellanoxPriorityVLANTagValueForV3 scripted ''Ethernet 2'')
        (boot [ok '''', ok ''x'']))) = [[deviceIDQuery]]
   \<and> fst (run_state (setMellanoxPriorityVLANTagValueForV3 scripted ''Ethernet 2'')
        (boot [failing ''exit status 1'' '''' ''access denied'', ok ''x'']))
     = Some (wrapError ''error while executing powershell command to get device id of Ethernet 2: ''
         (errorString ''exit status 1:access denied''))
   \<and> world (snd (run_state (setMellanoxPriorityVLANTagValueForV3 scripted ''Ethernet 2'')
        (boot [failing ''exit status 1'' '''' ''access denied'', ok ''x''])))
     = [ok ''x'']
   \<and> fst (run_state (setMellanoxPriorityVLANTagValueForV3 scripted ''Ethernet 2'')
        (boot [ok ''PCI-VEN_15B3'', failing ''exit status 1'' '''' ''no such device'']))
     = Some (wrapError ''error while executing powershell command to get registry suffix of device id PCI-VEN_15B3: ''
         (errorString ''exit status 1:no such device''))
   \<and> issued (snd (v3_driver scripted
        (boot [ok ''PCI-VEN_15B3'', failing ''exit status 1'' '''' ''no such device''])))
     = [[deviceIDQuery], [driverKeyQuery ''PCI-VEN_15B3'']]
   \<and> v3_path scripted (boot [ok ''PCI-VEN_15B3'', ok '''', ok ''3'']) = registryKeyPrefix
   \<and> issued (snd (v3_query scripted ''Ethernet 2'' (boot [ok ''PCI-VEN_15B3'', ok '''', ok ''3''])))
     = [[deviceIDQuery], [driverKeyQuery ''PCI-VEN_15B3''], [itemPropertyQuery registryKeyPrefix]]"
  using C4_resolution_chain [of scripted "boot [ok '''', ok ''x'']" "''Ethernet 2''"]
    C4_resolution_chain [of scripted
      "boot [failing ''exit status 1'' '''' ''access denied'', ok ''x'']" "''Ethernet 2''"]
    C4_resolution_chain [of scripted
      "boot [ok ''PCI-VEN_15B3'', failing ''exit status 1'' '''' ''no such device'']" "''Ethernet 2''"]
    C4_resolution_chain [of scripted "boot [ok ''PCI-VEN_15B3'', ok '''', ok ''3'']" "''Ethernet 2''"]
  by (simp add: v3_stage_defs EPC_run getV3_run)

text \<open>
  C4 as stated fails on an empty driver key suffix: the call below gets the suffix empty,
  goes on to query the value at the bare prefix and, reading 3 there, returns \<^verbatim>\<open>nil\<close>.
\<close>

theorem C4_empty_suffix_counterexample:
  "fst (run_state (setMellanoxPriorityVLANTagValueForV3 scripted ''Ethernet 2'')
          (boot [ok ''PCI-VEN_15B3'', ok '''', ok ''3''])) = None
   \<and> issued (snd (run_state (setMellanoxPriorityVLANTagValueForV3 scripted ''Ethernet 2'')
          (boot [ok ''PCI-VEN_15B3'', ok '''', ok ''3''])))
     = [[deviceIDQuery], [driverKeyQuery ''PCI-VEN_15B3''], [itemPropertyQuery registryKeyPrefix]]"
  by (simp add: setMellanoxPriorityVLANTagValueForV3_def EPC_run getV3_run
      desiredRegValueForVLANTag_def)

text \<open>The earlier revision on a machine without a Mellanox device: the call ends with
  \<^verbatim>\<open>nil\<close>, not with an error.\<close>

lemma earlier_revision_empty_device_id:
  "fst (run_state (SetMellanoxRegKeyPriorityVLANTag scripted)
          (boot [ok ''Ethernet 2'', ok '''', ok '''', ok ''x''])) = None
   \<and> issued (snd (run_state (SetMellanoxRegKeyPriorityVLANTag scripted)
          (boot [ok ''Ethernet 2'', ok '''', ok '''', ok ''x''])))
     = [[adapterNameQuery], [vlanTagProbe ''Ethernet 2''], [deviceIDQuery]]"
  by (simp add: SetMellanoxRegKeyPriorityVLANTag_def EPC_run)

section \<open>C7: the dispatch runs exactly one action\<close>

lemma dispatch_run:
  "run_state (SetMellanoxPriorityVLANTag env a) s =
     (case run_state (ExecutePowershellCommand env (vlanTagProbe a)) s of
        ((n, Some e), s1) \<Rightarrow>
          (Some (wrapError (''error while executing powershell command to get VLAN Tag advance property of ''
                   @ a @ '': '') e), s1)
      | ((n, None), s1) \<Rightarrow>
          if n \<noteq> '''' then run_state (setMellanoxPriorityVLANTagValueForV4 env n) s1
          else run_state (setMellanoxPriorityVLANTagValueForV3 env a) s1)"
  by (simp add: SetMellanoxPriorityVLANTag_def split: prod.splits option.splits)

lemma dispatch_log_grows: "log_grows s (snd (run_state (SetMellanoxPriorityVLANTag env a) s))"
proof -
  obtain n err s1 where
    p: "run_state (ExecutePowershellCommand env (vlanTagProbe a)) s = ((n, err), s1)"
    by (metis prod.collapse)
  from EPC_log_grows [of s env "vlanTagProbe a"] p have 1: "log_grows s s1" by simp
  have 2: "log_grows s (snd (run_state (setMellanoxPriorityVLANTagValueForV4 env n) s1))"
    using 1 setV4_log_grows by (rule log_grows_trans)
  have 3: "log_grows s (snd (run_state (setMellanoxPriorityVLANTagValueForV3 env a) s1))"
    using 1 setV3_log_grows by (rule log_grows_trans)
  show ?thesis
    using p 1 2 3 by (cases err) (simp_all add: dispatch_run)
qed

lemma direct_not_legacy:
  "advancedPropertyQuery x \<noteq> deviceIDQuery"
  "advancedPropertyQuery x \<noteq> driverKeyQuery d"
  "advancedPropertyQuery x \<noteq> itemPropertyQuery p"
  "advancedPropertyQuery x \<noteq> itemPropertyWrite p v"
  "advancedPropertyQuery x \<noteq> restartNetAdapter a"
  "advancedPropertyWrite x u \<noteq> deviceIDQuery"
  "advancedPropertyWrite x u \<noteq> driverKeyQuery d"
  "advancedPropertyWrite x u \<noteq> itemPropertyQuery p"
  "advancedPropertyWrite x u \<noteq> itemPropertyWrite p v"
  "advancedPropertyWrite x u \<noteq> restartNetAdapter a"
  by (simp_all add: advancedPropertyQuery_def advancedPropertyWrite_def restartNetAdapter_def
      deviceIDQuery_def driverKeyQuery_def itemPropertyQuery_def itemPropertyWrite_def)

text \<open>
  C7. For every adapter and every cycle: when the probe succeeds with a non-empty result,
  the dispatch is the direct-property action run on that result, and the commands after
  the probe are the direct-property query and write only, none of them a command of the
  legacy action; when the probe succeeds with an empty result, the dispatch is the
  legacy action run on the adapter name, and no command after the probe is a
  direct-property query or write. (When the probe itself fails, its error is returned and
  neither action runs.)
\<close>

theorem C7_generation_exclusivity:
  "(snd (fst (run_state (ExecutePowershellCommand env (vlanTagProbe adapterName)) s)) = None
      \<and> fst (fst (run_state (ExecutePowershellCommand env (vlanTagProbe adapterName)) s)) \<noteq> '''' \<longrightarrow>
      run_state (SetMellanoxPriorityVLANTag env adapterName) s
        = run_state (setMellanoxPriorityVLANTagValueForV4 env
            (fst (fst (run_state (ExecutePowershellCommand env (vlanTagProbe adapterName)) s))))
            (snd (run_state (ExecutePowershellCommand env (vlanTagProbe adapterName)) s))
      \<and> (\<exists>cs. issued (snd (run_state (SetMellanoxPriorityVLANTag env adapterName) s))
              = issued s @ [vlanTagProbe adapterName] # cs
            \<and> [deviceIDQuery] \<notin> set cs \<and> [restartNetAdapter adapterName] \<notin> set cs
            \<and> (\<forall>d p v. [driverKeyQuery d] \<notin> set cs \<and> [itemPropertyQuery p] \<notin> set cs
                  \<and> [itemPropertyWrite p v] \<notin> set cs)))
   \<and> (fst (run_state (ExecutePowershellCommand env (vlanTagProbe adapterName)) s) = ('''', None) \<longrightarrow>
      run_state (SetMellanoxPriorityVLANTag env adapterName) s
        = run_state (setMellanoxPriorityVLANTagValueForV3 env adapterName)
            (snd (run_state (ExecutePowershellCommand env (vlanTagProbe adapterName)) s))
      \<and> (\<exists>cs. issued (snd (run_state (SetMellanoxPriorityVLANTag env adapterName) s))
              = issued s @ [vlanTagProbe adapterName] # cs
            \<and> (\<forall>x v. [advancedPropertyQuery x] \<notin> set cs \<and> [advancedPropertyWrite x v] \<notin> set cs)))
   \<and> (snd (fst (run_state (ExecutePowershellCommand env (vlanTagProbe adapterName)) s)) \<noteq> None \<longrightarrow>
      fst (run_state (SetMellanoxPriorityVLANTag env adapterName) s)
        = map_option (wrapError (''error while executing powershell command to get VLAN Tag advance property of ''
            @ adapterName @ '': ''))
            (snd (fst (run_state (ExecutePowershellCommand env (vlanTagProbe adapterName)) s)))
      \<and> snd (run_state (SetMellanoxPriorityVLANTag env adapterName) s)
        = snd (run_state (ExecutePowershellCommand env (vlanTagProbe adapterName)) s))"
  (is "(?H1 \<longrightarrow> ?C1) \<and> (?H2 \<longrightarrow> ?C2) \<and> (?H3 \<longrightarrow> ?C3)")
proof -
  obtain n err s1 where
    p: "run_state (ExecutePowershellCommand env (vlanTagProbe adapterName)) s = ((n, err), s1)"
    by (metis prod.collapse)
  have i: "err = None \<Longrightarrow> issued s1 = issued s @ [[vlanTagProbe adapterName]]"
    using EPC_ok_issued p by fastforce
  have 1: "?H1 \<longrightarrow> ?C1"
  proof
    assume h: ?H1
    with p have e: "err = None" "n \<noteq> ''''" by simp_all
    from p e have r: "run_state (SetMellanoxPriorityVLANTag env adapterName) s
        = run_state (setMellanoxPriorityVLANTagValueForV4 env n) s1"
      by (simp add: dispatch_run)
    obtain cs where cs: "issued (snd (run_state (setMellanoxPriorityVLANTagValueForV4 env n) s1))
        = issued s1 @ cs"
      "set cs \<subseteq> {[advancedPropertyQuery n], [advancedPropertyWrite n desiredRegValueForVLANTag]}"
      using setV4_trace [of env n s1] by blast
    let ?S = "{[advancedPropertyQuery n], [advancedPropertyWrite n desiredRegValueForVLANTag]}"
    have nl: "[deviceIDQuery] \<notin> ?S" "[restartNetAdapter adapterName] \<notin> ?S"
      "[driverKeyQuery d] \<notin> ?S" "[itemPropertyQuery p] \<notin> ?S"
      "[itemPropertyWrite p v] \<notin> ?S" for d p v
      by (simp_all add: direct_not_legacy [THEN not_sym])
    have "[deviceIDQuery] \<notin> set cs \<and> [restartNetAdapter adapterName] \<notin> set cs
            \<and> (\<forall>d p v. [driverKeyQuery d] \<notin> set cs \<and> [itemPropertyQuery p] \<notin> set cs
                  \<and> [itemPropertyWrite p v] \<notin> set cs)"
      using cs(2) nl by blast
    with r cs(1) i [OF e(1)] p show ?C1
      by auto
  qed
  have 2: "?H2 \<longrightarrow> ?C2"
  proof
    assume h: ?H2
    with p have e: "err = None" "n = ''''" by simp_all
    from p e have r: "run_state (SetMellanoxPriorityVLANTag env adapterName) s
        = run_state (setMellanoxPriorityVLANTagValueForV3 env adapterName) s1"
      by (simp add: dispatch_run)
    obtain cs where cs: "issued (snd (run_state (setMellanoxPriorityVLANTagValueForV3 env adapterName) s1))
        = issued s1 @ cs"
      "set cs \<subseteq> {[deviceIDQuery], [driverKeyQuery (fst (fst (v3_device env s1)))],
          [itemPropertyQuery (v3_path env s1)],
          [itemPropertyWrite (v3_path env s1) desiredRegValueForVLANTag],
          [restartNetAdapter adapterName]}"
      using setV3_trace [of env adapterName s1] by blast
    have "[advancedPropertyQuery x] \<notin> set cs \<and> [advancedPropertyWrite x v] \<notin> set cs" for x v
    proof -
      have "[advancedPropertyQuery x] \<notin> {[deviceIDQuery], [driverKeyQuery (fst (fst (v3_device env s1)))],
          [itemPropertyQuery (v3_path env s1)],
          [itemPropertyWrite (v3_path env s1) desiredRegValueForVLANTag],
          [restartNetAdapter adapterName]}"
        by (simp add: direct_not_legacy)
      moreover have "[advancedPropertyWrite x v] \<notin> {[deviceIDQuery], [driverKeyQuery (fst (fst (v3_device env s1)))],
          [itemPropertyQuery (v3_path env s1)],
          [itemPropertyWrite (v3_path env s1) desiredRegValueForVLANTag],
          [restartNetAdapter adapterName]}"
        by (simp add: direct_not_legacy)
      ultimately show ?thesis using cs(2) by blast
    qed
    with r cs(1) i [OF e(1)] p show ?C2
      by auto
  qed
  have 3: "?H3 \<longrightarrow> ?C3"
    using p by (auto simp: dispatch_run)
  from 1 2 3 show ?thesis by blast
qed

text \<open>The dispatch on an adapter that has the property, on one that has not, and on
  a machine whose probe fails.\<close>

theorem C7_generation_exclusivity_witness:
  "issued (snd (run_state (SetMellanoxPriorityVLANTag scripted ''Ethernet 2'')
        (boot [ok ''Ethernet 2'', ok ''3''])))
     = [[vlanTagProbe ''Ethernet 2''], [advancedPropertyQuery ''Ethernet 2'']]
   \<and> issued (snd (run_state (SetMellanoxPriorityVLANTag scripted ''Ethernet 2'')
        (boot [ok '''', ok ''''])))
     = [[vlanTagProbe ''Ethernet 2''], [deviceIDQuery]]
   \<and> fst (run_state (SetMellanoxPriorityVLANTag scripted ''Ethernet 2'')
        (boot [failing ''exit status 1'' '''' ''denied'', ok ''x'']))
     = Some (wrapError ''error while executing powershell command to get VLAN Tag advance property of Ethernet 2: ''
         (errorString ''exit status 1:denied''))
   \<and> issued (snd (run_state (SetMellanoxPriorityVLANTag scripted ''Ethernet 2'')
        (boot [failing ''exit status 1'' '''' ''denied'', ok ''x''])))
     = [[vlanTagProbe ''Ethernet 2'']]"
  using C7_generation_exclusivity [of scripted "''Ethernet 2''" "boot [ok ''Ethernet 2'', ok ''3'']"]
    C7_generation_exclusivity [of scripted "''Ethernet 2''" "boot [ok '''', ok '''']"]
    C7_generation_exclusivity [of scripted "''Ethernet 2''"
      "boot [failing ''exit status 1'' '''' ''denied'', ok ''x'']"]
  by (simp add: EPC_run setV4_run getV4_run setMellanoxPriorityVLANTagValueForV3_def
      desiredRegValueForVLANTag_def)

section \<open>The monitor loop step by step\<close>

lemma getMellanoxAdapterName_run:
  "run_state (getMellanoxAdapterName env) s =
     (case run_state (ExecutePowershellCommand env adapterNameQuery) s of
        ((n, Some e), s1) \<Rightarrow>
          (('''', Some (wrapError ''error while executing powershell command to get net adapter list: '' e)), s1)
      | ((n, None), s1) \<Rightarrow>
          if n = ''''
          then (('''', Some (errorString ''no network adapter found with *Mellanox* in description'')), s1)
          else ((n, None), s1))"
  by (simp add: getMellanoxAdapterName_def mellanoxSearchString_def split: prod.splits option.splits)

lemma monitorCycle_run:
  "run_state (monitorCycle env) s =
     (case run_state (getMellanoxAdapterName env) s of
        ((adapterName, err), s1) \<Rightarrow>
          (case run_state (SetMellanoxPriorityVLANTag env adapterName)
                  (if err \<noteq> None
                   then s1\<lparr>logs := logs s1 @
                          [log_Errorf ''getMellanoxAdapterName returned err: %v and adapterName: %s''
                             [ArgError err, ArgString adapterName]]\<rparr>
                   else s1) of
             (err', s2) \<Rightarrow>
               ((), if err' \<noteq> None
                    then s2\<lparr>logs := logs s2 @
                           [log_Errorf ''error while monitoring and setting Mellanox Reg Key value: %v''
                              [ArgError err']]\<rparr>
                    else s2)))"
  by (simp add: monitorCycle_def split: prod.splits)

lemma monitorLoop_tick:
  "go_select r = Some case_Tick \<Longrightarrow>
   run_state (monitorLoop env (r # rs)) s =
   run_state (monitorLoop env rs) (snd (run_state (monitorCycle env) s))"
  by (cases "run_state (monitorCycle env) s") simp

lemma monitorLoop_done:
  "go_select r = Some case_Done \<Longrightarrow>
   run_state (monitorLoop env (r # rs)) s =
   (Returned, s\<lparr>logs := logs s @
      [log_Printf ''context cancelled, stopping Mellanox Monitoring:'' [ArgError (ctx_err r)]]\<rparr>)"
  by simp

lemma monitorLoop_returns:
  "fst (run_state (monitorLoop env rs) s) =
     (if \<exists>r \<in> set rs. go_select r = Some case_Done then Returned else Blocked)"
proof (induction rs arbitrary: s)
  case Nil
  then show ?case by simp
next
  case (Cons r rs)
  show ?case
  proof (cases "go_select r")
    case None
    with Cons.IH show ?thesis by simp
  next
    case (Some c)
    show ?thesis
    proof (cases c)
      case case_Done
      with Some show ?thesis by simp
    next
      case case_Tick
      with Some Cons.IH [of "snd (run_state (monitorCycle env) s)"] show ?thesis
        by (simp only: monitorLoop_tick) simp
    qed
  qed
qed

lemma monitorLoop_stops:
  "go_select r = Some case_Done \<Longrightarrow>
   run_state (monitorLoop env (rs1 @ r # rs2)) s = run_state (monitorLoop env (rs1 @ [r])) s"
proof (induction rs1 arbitrary: s)
  case Nil
  then show ?case by simp
next
  case (Cons a rs1)
  show ?case
  proof (cases "go_select a")
    case None
    with Cons show ?thesis by simp
  next
    case (Some c)
    show ?thesis
    proof (cases c)
      case case_Done
      with Some show ?thesis by simp
    next
      case case_Tick
      with Some have t: "go_select a = Some case_Tick" by simp
      from Cons.IH [OF Cons.prems, of "snd (run_state (monitorCycle env) s)"] show ?thesis
        by (simp only: append_Cons monitorLoop_tick [OF t])
    qed
  qed
qed

lemma monitorCycle_logs_lookup_error:
  assumes "snd (fst (run_state (getMellanoxAdapterName env) s)) \<noteq> None"
  shows "log_Errorf ''getMellanoxAdapterName returned err: %v and adapterName: %s''
           [ArgError (snd (fst (run_state (getMellanoxAdapterName env) s))),
            ArgString (fst (fst (run_state (getMellanoxAdapterName env) s)))]
         \<in> set (logs (snd (run_state (monitorCycle env) s)))"
proof -
  obtain n err s1 where g: "run_state (getMellanoxAdapterName env) s = ((n, err), s1)"
    by (metis prod.collapse)
  let ?e = "log_Errorf ''getMellanoxAdapterName returned err: %v and adapterName: %s''
           [ArgError err, ArgString n]"
  let ?s1 = "s1\<lparr>logs := logs s1 @ [?e]\<rparr>"
  obtain err' s2 where d: "run_state (SetMellanoxPriorityVLANTag env n) ?s1 = (err', s2)"
    by (metis prod.collapse)
  from assms g have e: "err \<noteq> None" by simp
  have "?e \<in> set (logs ?s1)" by simp
  moreover from dispatch_log_grows [of ?s1 env n] d have "log_grows ?s1 s2" by simp
  ultimately have m: "?e \<in> set (logs s2)" by (rule log_grows_mem [rotated])
  from g d e have "snd (run_state (monitorCycle env) s) =
      (if err' \<noteq> None
       then s2\<lparr>logs := logs s2 @
              [log_Errorf ''error while monitoring and setting Mellanox Reg Key value: %v''
                 [ArgError err']]\<rparr>
       else s2)"
    by (simp add: monitorCycle_run)
  with m g show ?thesis by simp
qed

lemma monitorCycle_logs_dispatch_error:
  "(let g = run_state (getMellanoxAdapterName env) s;
        d = run_state (SetMellanoxPriorityVLANTag env (fst (fst g)))
              (if snd (fst g) \<noteq> None
               then (snd g)\<lparr>logs := logs (snd g) @
                      [log_Errorf ''getMellanoxAdapterName returned err: %v and adapterName: %s''
                         [ArgError (snd (fst g)), ArgString (fst (fst g))]]\<rparr>
               else snd g)
    in snd (run_state (monitorCycle env) s) =
         (if fst d \<noteq> None
          then (snd d)\<lparr>logs := logs (snd d) @
                 [log_Errorf ''error while monitoring and setting Mellanox Reg Key value: %v''
                    [ArgError (fst d)]]\<rparr>
          else snd d))"
  by (simp add: monitorCycle_run Let_def split: prod.splits)

section \<open>C6: cancellation and failed cycles\<close>

text \<open>
  C6 (as amended). For every execution of the monitor loop: once the \<^verbatim>\<open>select\<close> takes the
  cancellation case the loop logs and returns, and what the schedule holds after that
  round is never looked at, so no further cycle runs. A \<^verbatim>\<open>select\<close> at which the signal is
  done takes the cancellation case unless a tick is ready too and the runtime picks the
  tick; then one more cycle runs although the signal is done. A cycle always runs to its
  end and the loop goes on with the next round: the loop returns exactly when some round
  takes the cancellation case, whatever the cycles returned. An error of the adapter
  lookup is in the log at the end of the cycle, and an error of the dispatch is its last
  entry.
\<close>

theorem C6_cancellation_and_errors:
  "(go_select r = Some case_Done \<longrightarrow>
      run_state (monitorLoop env (rs1 @ r # rs2)) s = run_state (monitorLoop env (rs1 @ [r])) s
      \<and> run_state (monitorLoop env (r # rs2)) s
          = (Returned, s\<lparr>logs := logs s @
               [log_Printf ''context cancelled, stopping Mellanox Monitoring:'' [ArgError (ctx_err r)]]\<rparr>))
   \<and> (ctx_err r \<noteq> None \<and> (\<not> tick_ready r \<or> \<not> pick_tick r) \<longrightarrow> go_select r = Some case_Done)
   \<and> (ctx_err r \<noteq> None \<and> tick_ready r \<and> pick_tick r \<longrightarrow> go_select r = Some case_Tick)
   \<and> (go_select r = Some case_Tick \<longrightarrow>
        run_state (monitorLoop env (r # rs2)) s
          = run_state (monitorLoop env rs2) (snd (run_state (monitorCycle env) s)))
   \<and> fst (run_state (monitorLoop env rs1) s)
        = (if \<exists>r \<in> set rs1. go_select r = Some case_Done then Returned else Blocked)
   \<and> (snd (fst (run_state (getMellanoxAdapterName env) s)) \<noteq> None \<longrightarrow>
        log_Errorf ''getMellanoxAdapterName returned err: %v and adapterName: %s''
           [ArgError (snd (fst (run_state (getMellanoxAdapterName env) s))),
            ArgString (fst (fst (run_state (getMellanoxAdapterName env) s)))]
         \<in> set (logs (snd (run_state (monitorCycle env) s))))
   \<and> (let g = run_state (getMellanoxAdapterName env) s;
           d = run_state (SetMellanoxPriorityVLANTag env (fst (fst g)))
                 (if snd (fst g) \<noteq> None
                  then (snd g)\<lparr>logs := logs (snd g) @
                         [log_Errorf ''getMellanoxAdapterName returned err: %v and adapterName: %s''
                            [ArgError (snd (fst g)), ArgString (fst (fst g))]]\<rparr>
                  else snd g)
       in fst d \<noteq> None \<longrightarrow>
            logs (snd (run_state (monitorCycle env) s))
              = logs (snd d) @
                 [log_Errorf ''error while monitoring and setting Mellanox Reg Key value: %v''
                    [ArgError (fst d)]])"
  (is "?A \<and> ?B \<and> ?C \<and> ?D \<and> ?E \<and> ?F \<and> ?G")
proof -
  have a: ?A using monitorLoop_stops [of r env rs1 rs2 s] monitorLoop_done [of r env rs2 s] by simp
  have b: ?B by (auto simp: go_select_def)
  have c: ?C by (auto simp: go_select_def)
  have d: ?D using monitorLoop_tick [of r env rs2 s] by simp
  have e: ?E by (rule monitorLoop_returns)
  have f: ?F using monitorCycle_logs_lookup_error [of env s] by simp
  have g: ?G using monitorCycle_logs_dispatch_error [of env s] by (simp add: Let_def)
  from a b c d e f g show ?thesis by (intro conjI)
qed

text \<open>A run of two rounds: a cycle in which the lookup and the probe both fail, then the
  cancellation; the third round and the third result of the script are never used. The
  same cycle alone leaves the loop blocked in its \<^verbatim>\<open>select\<close>.\<close>

theorem C6_cancellation_and_errors_witness:
  "fst (run_state (monitorLoop scripted [tick, cancelled, tick])
         (boot [failing ''exit status 1'' '''' ''a'', failing ''exit status 1'' '''' ''b'', ok ''x'']))
     = Returned
   \<and> world (snd (run_state (monitorLoop scripted [tick, cancelled, tick])
         (boot [failing ''exit status 1'' '''' ''a'', failing ''exit status 1'' '''' ''b'', ok ''x''])))
     = [ok ''x'']
   \<and> issued (snd (run_state (monitorLoop scripted [tick, cancelled, tick])
         (boot [failing ''exit status 1'' '''' ''a'', failing ''exit status 1'' '''' ''b'', ok ''x''])))
     = [[adapterNameQuery], [vlanTagProbe '''']]
   \<and> logs (snd (run_state (monitorLoop scripted [tick, cancelled, tick])
         (boot [failing ''exit status 1'' '''' ''a'', failing ''exit status 1'' '''' ''b'', ok ''x''])))
     = [log_Printf ''[Azure-Utils] %s'' [ArgString adapterNameQuery],
        log_Errorf ''getMellanoxAdapterName returned err: %v and adapterName: %s''
          [ArgError (Some (wrapError ''error while executing powershell command to get net adapter list: ''
              (errorString ''exit status 1:a''))), ArgString ''''],
        log_Printf ''[Azure-Utils] %s'' [ArgString (vlanTagProbe '''')],
        log_Errorf ''error while monitoring and setting Mellanox Reg Key value: %v''
          [ArgError (Some (wrapError ''error while executing powershell command to get VLAN Tag advance property of : ''
              (errorString ''exit status 1:b'')))],
        log_Printf ''context cancelled, stopping Mellanox Monitoring:''
          [ArgError (Some (errorString ''context canceled''))]]
   \<and> go_select cancelled_tick_first = Some case_Tick
   \<and> run_state (monitorLoop scripted [tick])
         (boot [failing ''exit status 1'' '''' ''a'', failing ''exit status 1'' '''' ''b'', ok ''x''])
     = (Blocked, snd (run_state (monitorCycle scripted)
         (boot [failing ''exit status 1'' '''' ''a'', failing ''exit status 1'' '''' ''b'', ok ''x''])))"
proof -
  let ?s = "boot [failing ''exit status 1'' '''' ''a'', failing ''exit status 1'' '''' ''b'', ok ''x'']"
  have cycle: "run_state (monitorCycle scripted) ?s =
      ((), \<lparr>world = [ok ''x''],
         procs = [(''powershell.exe'', [adapterNameQuery]), (''powershell.exe'', [vlanTagProbe ''''])],
         logs = [log_Printf ''[Azure-Utils] %s'' [ArgString adapterNameQuery],
           log_Errorf ''getMellanoxAdapterName returned err: %v and adapterName: %s''
             [ArgError (Some (wrapError ''error while executing powershell command to get net adapter list: ''
                 (errorString ''exit status 1:a''))), ArgString ''''],
           log_Printf ''[Azure-Utils] %s'' [ArgString (vlanTagProbe '''')],
           log_Errorf ''error while monitoring and setting Mellanox Reg Key value: %v''
             [ArgError (Some (wrapError ''error while executing powershell command to get VLAN Tag advance property of : ''
                 (errorString ''exit status 1:b'')))]],
         sdnRemoteArpMacAddressSet = False\<rparr>)"
    by (simp add: monitorCycle_run getMellanoxAdapterName_run dispatch_run EPC_run boot_def)
  show ?thesis
    using C6_cancellation_and_errors [of cancelled scripted "[tick]" "[tick]" ?s]
      C6_cancellation_and_errors [of tick scripted "[]" "[]" ?s]
      C6_cancellation_and_errors [of cancelled_tick_first scripted "[]" "[]" ?s]
    by (simp add: cycle getMellanoxAdapterName_run dispatch_run EPC_run issued_def)
qed

text \<open>
  C6 as stated fails when a tick is ready at the \<^verbatim>\<open>select\<close> at which the cancellation
  signal is already done and the runtime picks the tick: a whole cycle runs after the
  signal, and the loop returns one round later.
\<close>

theorem C6_cycle_after_cancellation_counterexample:
  "ctx_err cancelled_tick_first \<noteq> None
   \<and> fst (run_state (MonitorAndSetMellanoxRegKeyPriorityVLANTag scripted
            [cancelled_tick_first, cancelled] 30)
          (boot [ok ''Ethernet 2'', ok ''Ethernet 2'', ok ''3''])) = Returned
   \<and> issued (snd (run_state (MonitorAndSetMellanoxRegKeyPriorityVLANTag scripted
            [cancelled_tick_first, cancelled] 30)
          (boot [ok ''Ethernet 2'', ok ''Ethernet 2'', ok ''3''])))
     = [[adapterNameQuery], [vlanTagProbe ''Ethernet 2''], [advancedPropertyQuery ''Ethernet 2'']]"
  by (simp add: MonitorAndSetMellanoxRegKeyPriorityVLANTag_def monitorCycle_run
      getMellanoxAdapterName_run dispatch_run setV4_run getV4_run EPC_run
      desiredRegValueForVLANTag_def)

section \<open>C1: a tick with no matching adapter\<close>

text \<open>
  C1 does not hold on the code. On a tick whose adapter lookup prints nothing,
  \<^verbatim>\<open>getMellanoxAdapterName\<close> returns the error that no network adapter was found; the loop
  logs it and then calls \<^verbatim>\<open>SetMellanoxPriorityVLANTag\<close> with the empty name all the same,
  so the probe and the device lookup of the legacy action are issued after the lookup. On
  a machine whose device catalog does list a Mellanox device, the cycle goes on to write
  the registry value and to restart the adapter named by the empty string.
\<close>

theorem C1_empty_lookup_still_dispatches:
  "fst (run_state (getMellanoxAdapterName scripted) (boot [ok '''', ok '''', ok '''']))
     = ('''', Some (errorString ''no network adapter found with *Mellanox* in description''))
   \<and> fst (run_state (MonitorAndSetMellanoxRegKeyPriorityVLANTag scripted [tick] 30)
          (boot [ok '''', ok '''', ok ''''])) = Blocked
   \<and> issued (snd (run_state (MonitorAndSetMellanoxRegKeyPriorityVLANTag scripted [tick] 30)
          (boot [ok '''', ok '''', ok ''''])))
     = [[adapterNameQuery], [vlanTagProbe ''''], [deviceIDQuery]]
   \<and> issued (snd (run_state (MonitorAndSetMellanoxRegKeyPriorityVLANTag scripted [tick] 30)
          (boot [ok '''', ok '''', ok ''PCI-VEN_15B3'', ok ''{4d36e972}-0003'', ok ''0'', ok '''', ok ''''])))
     = [[adapterNameQuery], [vlanTagProbe ''''], [deviceIDQuery], [driverKeyQuery ''PCI-VEN_15B3''],
        [itemPropertyQuery (registryKeyPrefix @ ''{4d36e972}-0003'')],
        [itemPropertyWrite (registryKeyPrefix @ ''{4d36e972}-0003'') 3],
        [restartNetAdapter '''']]"
  by (simp add: MonitorAndSetMellanoxRegKeyPriorityVLANTag_def monitorCycle_run
      getMellanoxAdapterName_run dispatch_run setMellanoxPriorityVLANTagValueForV3_def getV3_run
      EPC_run desiredRegValueForVLANTag_def)

section \<open>C8: the interval of the ticker\<close>

lemma sint_mul_Second:
  assumes "0 < sint n" "sint n \<le> 9223372036"
  shows "sint (n * Second) = sint n * 1000000000"
proof -
  have "sint (n * Second) = signed_take_bit 63 (sint n * sint Second)"
    by (simp add: sint_word_ariths)
  also have "\<dots> = signed_take_bit 63 (sint n * 1000000000)"
    by (simp add: Second_def)
  also have "\<dots> = sint n * 1000000000"
    using assms by (intro signed_take_bit_int_eq_self) auto
  finally show ?thesis .
qed

text \<open>
  C8 (as amended). For every 64-bit interval override: a positive override of at most
  9223372036 seconds sets the tick interval to that many seconds (in nanoseconds, the
  unit of a duration), and the loop starts; an override that is zero or negative is
  ignored, the interval is the default of 30 seconds, and the loop starts. (A larger
  override overflows the multiplication by \<^verbatim>\<open>time.Second\<close>.)
\<close>

theorem C8_monitor_interval:
  "(0 <s intervalSecs \<and> sint intervalSecs \<le> 9223372036 \<longrightarrow>
      sint (monitorInterval intervalSecs) = sint intervalSecs * 1000000000
      \<and> MonitorAndSetMellanoxRegKeyPriorityVLANTag env ctx intervalSecs = monitorLoop env ctx)
   \<and> (\<not> 0 <s intervalSecs \<longrightarrow>
      monitorInterval intervalSecs = defaultMellanoxMonitorInterval
      \<and> sint (monitorInterval intervalSecs) = 30 * 1000000000
      \<and> MonitorAndSetMellanoxRegKeyPriorityVLANTag env ctx intervalSecs = monitorLoop env ctx)"
proof -
  have a: "0 <s intervalSecs \<and> sint intervalSecs \<le> 9223372036 \<longrightarrow>
      sint (monitorInterval intervalSecs) = sint intervalSecs * 1000000000"
    by (simp add: monitorInterval_def word_sless_alt sint_mul_Second)
  have b: "\<not> 0 <s intervalSecs \<longrightarrow>
      monitorInterval intervalSecs = defaultMellanoxMonitorInterval
      \<and> sint (monitorInterval intervalSecs) = 30 * 1000000000"
    by (simp add: monitorInterval_def defaultMellanoxMonitorInterval_def Second_def)
  have c: "0 < sint (monitorInterval intervalSecs) \<Longrightarrow>
      MonitorAndSetMellanoxRegKeyPriorityVLANTag env ctx intervalSecs = monitorLoop env ctx"
    by (simp add: MonitorAndSetMellanoxRegKeyPriorityVLANTag_def word_sle_eq)
  from a b c show ?thesis
    by (auto simp: word_sless_alt)
qed

text \<open>Overrides of 5 seconds, of 0 and of -7.\<close>

theorem C8_monitor_interval_witness:
  "sint (monitorInterval 5) = 5000000000
   \<and> sint (monitorInterval 0) = 30000000000
   \<and> sint (monitorInterval (- 7)) = 30000000000
   \<and> MonitorAndSetMellanoxRegKeyPriorityVLANTag scripted [tick] 5 = monitorLoop scripted [tick]
   \<and> MonitorAndSetMellanoxRegKeyPriorityVLANTag scripted [tick] (- 7) = monitorLoop scripted [tick]"
  using C8_monitor_interval [of 5 scripted "[tick]"] C8_monitor_interval [of 0 scripted "[tick]"]
    C8_monitor_interval [of "- 7" scripted "[tick]"]
  by (simp add: word_sless_alt defaultMellanoxMonitorInterval_def Second_def del: monitorLoop.simps)

text \<open>
  C8 as stated fails on a positive override whose nanoseconds do not fit 64 bits: for
  9223372037 seconds the product wraps to a negative duration, and \<^verbatim>\<open>time.NewTicker\<close>
  panics instead of ticking.
\<close>

theorem C8_overflow_counterexample:
  "0 <s (9223372037 :: 64 word)
   \<and> sint (monitorInterval 9223372037) = - 9223372036709551616
   \<and> sint (monitorInterval 9223372037) \<noteq> sint (9223372037 :: 64 word) * 1000000000
   \<and> MonitorAndSetMellanoxRegKeyPriorityVLANTag scripted [tick] 9223372037
       = State_Monad.return (Panicked ''non-positive interval for NewTicker'')"
  by (simp add: MonitorAndSetMellanoxRegKeyPriorityVLANTag_def monitorInterval_def
      word_sless_alt word_sle_eq Second_def)

end
